theory Spec2Isabelle
  imports Complex_Main "HOL-Library.AList"
begin

section \<open>The STAC catalog script for the Gobindpur LULC raster\<close>

text \<open>
  The program is one Python script, \<^verbatim>\<open>stac_script_raster_2.py\<close>: it reads one raster,
  builds one STAC item with its assets, writes a thumbnail and a legend beside the raster,
  saves the catalog and renames the item file. The script is modelled statement by
  statement as a function from the state of the file system to the state after the run,
  the objects it built and the lines it printed. A call that raises and is not caught ends
  the run with \<open>Inl\<close> of the exception.

  Strings are lists of characters with code points below 256. The calls into the Python
  standard library and into rasterio, shapely, pystac and matplotlib are modelled by the
  functions of the subsections below, as far as the script depends on them.
\<close>

subsection \<open>Exceptions\<close>

datatype error =
    ValueError string
  | RasterioIOError string
  | IndexError
  | AttributeError
  | STACError
  | FileNotFoundError string

text \<open>Sequencing of calls that may raise: the first exception ends the run.\<close>

definition and_then :: "error + 'a \<Rightarrow> ('a \<Rightarrow> error + 'b) \<Rightarrow> error + 'b" where
  "and_then r k = (case r of Inl e \<Rightarrow> Inl e | Inr v \<Rightarrow> k v)"

subsection \<open>\<^verbatim>\<open>os.path\<close> on POSIX\<close>

text \<open>\<^verbatim>\<open>os.path.join(a, b)\<close> with two arguments.\<close>

definition os_path_join :: "string \<Rightarrow> string \<Rightarrow> string" where
  "os_path_join a b =
     (if b \<noteq> [] \<and> hd b = CHR ''/'' then b
      else if a = [] \<or> last a = CHR ''/'' then a @ b
      else a @ ''/'' @ b)"

text \<open>\<^verbatim>\<open>s.rstrip('/')\<close>.\<close>

definition rstrip_slash :: "string \<Rightarrow> string" where
  "rstrip_slash s = rev (dropWhile (\<lambda>c. c = CHR ''/'') (rev s))"

text \<open>
  \<^verbatim>\<open>os.path.dirname(p)\<close>: the part up to and including the last slash, with its trailing
  slashes removed unless it consists of slashes only.
\<close>

definition os_path_dirname :: "string \<Rightarrow> string" where
  "os_path_dirname p =
     (let head = rev (dropWhile (\<lambda>c. c \<noteq> CHR ''/'') (rev p))
      in if head \<noteq> [] \<and> \<not> list_all (\<lambda>c. c = CHR ''/'') head then rstrip_slash head else head)"

text \<open>\<^verbatim>\<open>p.split('/')\<close>: the components between slashes, empty ones included.\<close>

fun split_slash :: "string \<Rightarrow> string list" where
  "split_slash [] = [[]]"
| "split_slash (c # cs) =
     (if c = CHR ''/'' then [] # split_slash cs
      else (case split_slash cs of
              [] \<Rightarrow> [[c]]
            | w # ws \<Rightarrow> (c # w) # ws))"

text \<open>\<^verbatim>\<open>'/'.join(comps)\<close>.\<close>

fun join_slash :: "string list \<Rightarrow> string" where
  "join_slash [] = []"
| "join_slash [w] = w"
| "join_slash (w # ws) = w @ ''/'' @ join_slash ws"

text \<open>
  The loop of \<^verbatim>\<open>os.path.normpath\<close> over the components; \<open>new_comps\<close> is kept in
  reverse, so that its last element is the head of the list; \<open>cmp\<close> is the
  source's \<^verbatim>\<open>comp\<close>.
\<close>

fun normpath_loop :: "bool \<Rightarrow> string list \<Rightarrow> string list \<Rightarrow> string list" where
  "normpath_loop initial_slashes new_comps [] = rev new_comps"
| "normpath_loop initial_slashes new_comps (cmp # comps) =
     (if cmp = [] \<or> cmp = ''.'' then normpath_loop initial_slashes new_comps comps
      else if cmp \<noteq> ''..'' \<or> (\<not> initial_slashes \<and> new_comps = [])
                \<or> (new_comps \<noteq> [] \<and> hd new_comps = ''..'')
        then normpath_loop initial_slashes (cmp # new_comps) comps
      else if new_comps \<noteq> [] then normpath_loop initial_slashes (tl new_comps) comps
      else normpath_loop initial_slashes new_comps comps)"

definition os_path_normpath :: "string \<Rightarrow> string" where
  "os_path_normpath path =
     (if path = [] then ''.''
      else
        (let initial_slashes =
               (if hd path \<noteq> CHR ''/'' then 0
                else if take 2 path = ''//'' \<and> take 3 path \<noteq> ''///'' then 2
                else (1::nat));
             comps = normpath_loop (initial_slashes \<noteq> 0) [] (split_slash path);
             p = replicate initial_slashes CHR ''/'' @ join_slash comps
         in if p = [] then ''.'' else p))"

subsection \<open>The paths of the script\<close>

definition tif_path :: string where
  "tif_path = ''/home/vishnu/corestack_STAC/data/gobindpur_lulc_2023_2024.tif''"

definition qgis_style_path :: string where
  "qgis_style_path = ''/home/vishnu/corestack_STAC/data/style_file.qml''"

definition output_dir :: string where
  "output_dir = ''/home/vishnu/corestack_STAC/output_catalog_lulc''"

definition item_id :: string where
  "item_id = ''gobindpur-lulc''"

definition item_dir :: string where
  "item_dir = os_path_join output_dir item_id"

definition data_dir :: string where
  "data_dir = os_path_dirname tif_path"

subsection \<open>\<^verbatim>\<open>datetime\<close>\<close>

text \<open>A naive \<^verbatim>\<open>datetime.datetime\<close> (no time zone).\<close>

record datetime =
  year :: nat
  month :: nat
  day :: nat
  hour :: nat
  minute :: nat
  second :: nat
  microsecond :: nat

definition is_leap :: "nat \<Rightarrow> bool" where
  "is_leap y = (y mod 4 = 0 \<and> (y mod 100 \<noteq> 0 \<or> y mod 400 = 0))"

definition days_in_month :: "nat \<Rightarrow> nat \<Rightarrow> nat" where
  "days_in_month y m =
     (if m = 2 then (if is_leap y then 29 else 28)
      else if m = 4 \<or> m = 6 \<or> m = 9 \<or> m = 11 then 30
      else 31)"

text \<open>
  The constructor \<^verbatim>\<open>datetime(year, month, day, hour, minute, second, microsecond)\<close>
  and its range checks.
\<close>

definition datetime_new ::
  "nat \<Rightarrow> nat \<Rightarrow> nat \<Rightarrow> nat \<Rightarrow> nat \<Rightarrow> nat \<Rightarrow> nat \<Rightarrow> error + datetime" where
  "datetime_new y m d H M S us =
     (if y < 1 \<or> 9999 < y then Inl (ValueError ''year is out of range'')
      else if m < 1 \<or> 12 < m then Inl (ValueError ''month must be in 1..12'')
      else if d < 1 \<or> days_in_month y m < d then Inl (ValueError ''day is out of range for month'')
      else if 23 < H then Inl (ValueError ''hour must be in 0..23'')
      else if 59 < M then Inl (ValueError ''minute must be in 0..59'')
      else if 59 < S then Inl (ValueError ''second must be in 0..59'')
      else if 999999 < us then Inl (ValueError ''microsecond must be in 0..999999'')
      else Inr \<lparr>year = y, month = m, day = d, hour = H, minute = M, second = S,
                microsecond = us\<rparr>)"

text \<open>\<^verbatim>\<open>datetime(y, m, d)\<close> with literal arguments in range: midnight of that day.\<close>

definition datetime_ymd :: "nat \<Rightarrow> nat \<Rightarrow> nat \<Rightarrow> datetime" where
  "datetime_ymd y m d =
     \<lparr>year = y, month = m, day = d, hour = 0, minute = 0, second = 0, microsecond = 0\<rparr>"

text \<open>Comparison of naive datetimes: lexicographic on the seven fields.\<close>

definition dt_fields :: "datetime \<Rightarrow> nat list" where
  "dt_fields t = [year t, month t, day t, hour t, minute t, second t, microsecond t]"

fun lex_less :: "nat list \<Rightarrow> nat list \<Rightarrow> bool" where
  "lex_less [] [] = False"
| "lex_less [] (y # ys) = True"
| "lex_less (x # xs) [] = False"
| "lex_less (x # xs) (y # ys) = (x < y \<or> (x = y \<and> lex_less xs ys))"

definition dt_less :: "datetime \<Rightarrow> datetime \<Rightarrow> bool" where
  "dt_less a b = lex_less (dt_fields a) (dt_fields b)"

definition dt_le :: "datetime \<Rightarrow> datetime \<Rightarrow> bool" where
  "dt_le a b = (dt_less a b \<or> a = b)"

text \<open>
  \<^verbatim>\<open>isoformat()\<close> of a naive datetime: \<^verbatim>\<open>YYYY-MM-DDTHH:MM:SS\<close>, followed by
  \<^verbatim>\<open>.ffffff\<close> when the microsecond is not zero. \<open>str_nat\<close> is \<^verbatim>\<open>str(n)\<close> and
  \<open>zfill\<close> is \<^verbatim>\<open>'%0wd'\<close>.
\<close>

fun str_nat :: "nat \<Rightarrow> string" where
  "str_nat n =
     (if n < 10 then [''0123456789'' ! n]
      else str_nat (n div 10) @ [''0123456789'' ! (n mod 10)])"

definition zfill :: "nat \<Rightarrow> nat \<Rightarrow> string" where
  "zfill w n = replicate (w - length (str_nat n)) CHR ''0'' @ str_nat n"

definition isoformat :: "datetime \<Rightarrow> string" where
  "isoformat t =
     zfill 4 (year t) @ ''-'' @ zfill 2 (month t) @ ''-'' @ zfill 2 (day t) @ ''T'' @
     zfill 2 (hour t) @ '':'' @ zfill 2 (minute t) @ '':'' @ zfill 2 (second t) @
     (if microsecond t \<noteq> 0 then ''.'' @ zfill 6 (microsecond t) else [])"

subsection \<open>\<^verbatim>\<open>datetime.strptime\<close> with the format \<^verbatim>\<open>%Y:%m:%d %H:%M:%S\<close>\<close>

text \<open>
  \<^verbatim>\<open>strptime\<close> turns the format into the regular expression
  \<^verbatim>\<open>(?P<Y>\d\d\d\d):(?P<m>1[0-2]|0[1-9]|[1-9]):(?P<d>3[0-1]|[1-2]\d|0[1-9]|[1-9]| [1-9])\s+\<close>
  \<^verbatim>\<open>(?P<H>2[0-3]|[0-1]\d|\d):(?P<M>[0-5]\d|\d):(?P<S>6[0-1]|[0-5]\d|\d)\<close>,
  matches it at the start of the string, raises \<^verbatim>\<open>ValueError\<close> when there is no match
  or when the match does not reach the end of the string, and builds the datetime from
  the six numbers, which raises \<^verbatim>\<open>ValueError\<close> when one is out of range.

  A matcher returns the list of its matches in the order in which the backtracking
  matcher tries them, each with the value read and the rest of the input; the match
  found is the first of the list for the whole expression. The text of the exception is
  abbreviated.
\<close>

definition is_digit :: "char \<Rightarrow> bool" where
  "is_digit c = (c \<in> set ''0123456789'')"

definition digit_val :: "char \<Rightarrow> nat" where
  "digit_val c = of_char c - 48"

text \<open>\<^verbatim>\<open>\s\<close> on code points below 256.\<close>

definition is_space :: "char \<Rightarrow> bool" where
  "is_space c =
     (let n = (of_char c :: nat)
      in (9 \<le> n \<and> n \<le> 13) \<or> (28 \<le> n \<and> n \<le> 32) \<or> n = 133 \<or> n = 160)"

text \<open>One digit whose value is between \<open>lo\<close> and \<open>hi\<close>: the class \<^verbatim>\<open>[lo-hi]\<close>.\<close>

fun re_digit :: "nat \<Rightarrow> nat \<Rightarrow> string \<Rightarrow> (nat \<times> string) list" where
  "re_digit lo hi [] = []"
| "re_digit lo hi (c # cs) =
     (if is_digit c \<and> lo \<le> digit_val c \<and> digit_val c \<le> hi then [(digit_val c, cs)] else [])"

text \<open>Two digits, the first in \<^verbatim>\<open>[a-b]\<close> and the second in \<^verbatim>\<open>[c-d]\<close>.\<close>

definition re_digits2 :: "nat \<Rightarrow> nat \<Rightarrow> nat \<Rightarrow> nat \<Rightarrow> string \<Rightarrow> (nat \<times> string) list" where
  "re_digits2 a b c d s =
     concat (map (\<lambda>(x, r). map (\<lambda>(y, r'). (10 * x + y, r')) (re_digit c d r)) (re_digit a b s))"

text \<open>A literal character.\<close>

fun re_lit :: "char \<Rightarrow> string \<Rightarrow> string list" where
  "re_lit x [] = []"
| "re_lit x (c # cs) = (if c = x then [cs] else [])"

text \<open>\<^verbatim>\<open>\s+\<close>, greedy: the longest run of white space first.\<close>

fun re_spaces :: "string \<Rightarrow> string list" where
  "re_spaces [] = []"
| "re_spaces (c # cs) = (if is_space c then re_spaces cs @ [cs] else [])"

definition re_Y :: "string \<Rightarrow> (nat \<times> string) list" where
  "re_Y s =
     concat (map (\<lambda>(x, r). map (\<lambda>(y, r'). (100 * x + y, r')) (re_digits2 0 9 0 9 r))
       (re_digits2 0 9 0 9 s))"

definition re_m :: "string \<Rightarrow> (nat \<times> string) list" where
  "re_m s = re_digits2 1 1 0 2 s @ re_digits2 0 0 1 9 s @ re_digit 1 9 s"

definition re_d :: "string \<Rightarrow> (nat \<times> string) list" where
  "re_d s =
     re_digits2 3 3 0 1 s @ re_digits2 1 2 0 9 s @ re_digits2 0 0 1 9 s @ re_digit 1 9 s @
     concat (map (re_digit 1 9) (re_lit CHR '' '' s))"

definition re_H :: "string \<Rightarrow> (nat \<times> string) list" where
  "re_H s = re_digits2 2 2 0 3 s @ re_digits2 0 1 0 9 s @ re_digit 0 9 s"

definition re_M :: "string \<Rightarrow> (nat \<times> string) list" where
  "re_M s = re_digits2 0 5 0 9 s @ re_digit 0 9 s"

definition re_S :: "string \<Rightarrow> (nat \<times> string) list" where
  "re_S s = re_digits2 6 6 0 1 s @ re_digits2 0 5 0 9 s @ re_digit 0 9 s"

text \<open>A matcher followed by a continuation on the rest of the input.\<close>

definition re_then ::
  "('a \<times> string) list \<Rightarrow> ('a \<Rightarrow> string \<Rightarrow> 'b list) \<Rightarrow> 'b list" where
  "re_then ms k = concat (map (\<lambda>(v, r). k v r) ms)"

definition re_skip :: "string list \<Rightarrow> (string \<Rightarrow> 'b list) \<Rightarrow> 'b list" where
  "re_skip rs k = concat (map k rs)"

definition re_format :: "string \<Rightarrow> ((nat \<times> nat \<times> nat \<times> nat \<times> nat \<times> nat) \<times> string) list" where
  "re_format s =
     re_then (re_Y s) (\<lambda>Y r. re_skip (re_lit CHR '':'' r) (\<lambda>r.
     re_then (re_m r) (\<lambda>m r. re_skip (re_lit CHR '':'' r) (\<lambda>r.
     re_then (re_d r) (\<lambda>d r. re_skip (re_spaces r) (\<lambda>r.
     re_then (re_H r) (\<lambda>H r. re_skip (re_lit CHR '':'' r) (\<lambda>r.
     re_then (re_M r) (\<lambda>M r. re_skip (re_lit CHR '':'' r) (\<lambda>r.
     re_then (re_S r) (\<lambda>S r. [((Y, m, d, H, M, S), r)])))))))))))"

definition strptime :: "string \<Rightarrow> error + datetime" where
  "strptime data_string =
     (case re_format data_string of
        [] \<Rightarrow> Inl (ValueError ''time data does not match format'')
      | ((Y, m, d, H, M, S), rest) # _ \<Rightarrow>
          if rest \<noteq> [] then Inl (ValueError (''unconverted data remains: '' @ rest))
          else datetime_new Y m d H M S 0)"

subsection \<open>What the script prints\<close>

text \<open>
  One constructor for each \<^verbatim>\<open>print\<close> of the script, with the values it formats into the
  line.
\<close>

datatype message =
    Failed_to_parse error
  | Qml_not_found
  | Catalog_created
  | With_start_end
  | With_thumbnail
  | With_legend
  | Catalog_json_at string
  | Item_at string

subsection \<open>Step 2: the date of the item\<close>

text \<open>
  Lines 28 to 40, on the tags the raster returned: the two variables \<open>start_dt\<close> and
  \<open>end_dt\<close> after the block, and what was printed. \<^verbatim>\<open>tags.get\<close> returns \<^verbatim>\<open>None\<close>
  for a missing key, and \<^verbatim>\<open>if date_str:\<close> is false for \<^verbatim>\<open>None\<close> and for the empty
  string.
\<close>

definition read_date_tag ::
  "(string \<rightharpoonup> string) \<Rightarrow> datetime option \<times> datetime option \<times> message list" where
  "read_date_tag tags =
     (case tags ''TIFFTAG_DATETIME'' of
        None \<Rightarrow> (None, None, [])
      | Some date_str \<Rightarrow>
          if date_str = [] then (None, None, [])
          else (case strptime date_str of
                  Inr dt \<Rightarrow> (Some dt, Some dt, [])
                | Inl e \<Rightarrow> (None, None, [Failed_to_parse e])))"

text \<open>
  Lines 43 to 45: the fallback. \<^verbatim>\<open>not start_dt\<close> is true for \<^verbatim>\<open>None\<close> and false for
  every datetime.
\<close>

definition date_fallback ::
  "datetime option \<times> datetime option \<Rightarrow> datetime option \<times> datetime option" where
  "date_fallback v =
     (case v of (start_dt, end_dt) \<Rightarrow>
        if start_dt = None
        then (Some (datetime_ymd 2023 6 1), Some (datetime_ymd 2024 3 31))
        else (start_dt, end_dt))"

text \<open>Step 2 as a whole, on the tags of the raster.\<close>

definition set_date_info ::
  "(string \<rightharpoonup> string) \<Rightarrow> (datetime option \<times> datetime option) \<times> message list" where
  "set_date_info tags =
     (case read_date_tag tags of
        (start_dt, end_dt, out) \<Rightarrow> (date_fallback (start_dt, end_dt), out))"

subsection \<open>JSON values\<close>

text \<open>
  The values the script puts into the properties of the item and into the legend file.
  A dictionary keeps the order in which its keys were inserted.
\<close>

datatype json =
    JNull
  | JBool bool
  | JInt int
  | JStr string
  | JList "json list"
  | JDict "(string \<times> json) list"

subsection \<open>The raster and the file system\<close>

text \<open>
  What the script reads of the raster through rasterio: \<^verbatim>\<open>src.bounds\<close>,
  \<^verbatim>\<open>src.tags()\<close> and the bands that \<^verbatim>\<open>src.read(i)\<close> returns. A GeoTIFF has at
  least one band: \<open>band1\<close> is the first and \<open>more_bands\<close> are the others. \<open>top'\<close>
  is the field \<^verbatim>\<open>top\<close> of the bounds.
\<close>

record bounding_box =
  left :: real
  bottom :: real
  right :: real
  top' :: real

record raster =
  bounds :: bounding_box
  tags :: "string \<rightharpoonup> string"
  band1 :: "int list list"
  more_bands :: "int list list list"

text \<open>A GeoJSON geometry as \<^verbatim>\<open>shapely.geometry.mapping\<close> returns it for a polygon.\<close>

record geometry =
  g_type :: string
  g_coordinates :: "(real \<times> real) list list"

text \<open>\<^verbatim>\<open>pystac.Asset\<close>, \<^verbatim>\<open>pystac.Item\<close> and \<^verbatim>\<open>pystac.Catalog\<close>.\<close>

record asset =
  href :: string
  media_type :: string
  roles :: "string list"
  title :: string

record item =
  i_id :: string
  i_geometry :: geometry
  i_bbox :: "real list"
  i_datetime :: "datetime option"
  i_properties :: "(string \<times> json) list"
  i_assets :: "(string \<times> asset) list"
  i_self_href :: "string option"

record catalog =
  c_id :: string
  c_description :: string
  c_items :: "item list"
  c_self_href :: "string option"

text \<open>
  What a file holds. The image is kept as the array it was rendered from, and the
  documents of the catalog as the objects they were written from; the legend is kept as
  its text.
\<close>

datatype content =
    GeoTIFF raster
  | PNG "int list list"
  | Text string
  | Item_document item
  | Catalog_document catalog

text \<open>
  The file system maps the absolute path of a file to what it holds. Directories, access
  rights and the space left on the device are not modelled: \<^verbatim>\<open>os.makedirs\<close> changes no
  file, and writing a file succeeds.
\<close>

type_synonym fs = "string \<rightharpoonup> content"

definition os_path_exists :: "fs \<Rightarrow> string \<Rightarrow> bool" where
  "os_path_exists files p = (files p \<noteq> None)"

definition os_rename :: "fs \<Rightarrow> string \<Rightarrow> string \<Rightarrow> error + fs" where
  "os_rename files src dst =
     (case files src of
        None \<Rightarrow> Inl (FileNotFoundError src)
      | Some c \<Rightarrow> Inr ((files(src := None))(dst \<mapsto> c)))"

definition write_file :: "fs \<Rightarrow> string \<Rightarrow> content \<Rightarrow> fs" where
  "write_file files p c = files(p \<mapsto> c)"

subsection \<open>rasterio and shapely\<close>

text \<open>\<^verbatim>\<open>rasterio.open(path)\<close> raises unless the file is a raster.\<close>

definition rasterio_open :: "fs \<Rightarrow> string \<Rightarrow> error + raster" where
  "rasterio_open files p =
     (case files p of
        Some (GeoTIFF r) \<Rightarrow> Inr r
      | _ \<Rightarrow> Inl (RasterioIOError p))"

text \<open>\<^verbatim>\<open>src.read(i)\<close>: band \<open>i\<close>, counted from 1.\<close>

definition read_band :: "raster \<Rightarrow> nat \<Rightarrow> error + int list list" where
  "read_band src i =
     (if i = 1 then Inr (band1 src)
      else if 2 \<le> i \<and> i \<le> 1 + length (more_bands src) then Inr (more_bands src ! (i - 2))
      else Inl IndexError)"

text \<open>
  \<^verbatim>\<open>Polygon(coords)\<close>: the exterior ring is the coordinates given, with the first of
  them added at the end when it differs from the last.
\<close>

definition polygon_ring :: "(real \<times> real) list \<Rightarrow> (real \<times> real) list" where
  "polygon_ring coords =
     (if coords \<noteq> [] \<and> hd coords \<noteq> last coords then coords @ [hd coords] else coords)"

text \<open>
  \<^verbatim>\<open>shapely.geometry.box(minx, miny, maxx, maxy)\<close>: the polygon of the four corners,
  counter-clockwise from \<open>(maxx, miny)\<close>. The first corner is the last when
  \<open>minx = maxx\<close>, and the ring has four positions then, five otherwise.
  \<^verbatim>\<open>mapping\<close> gives the polygon as a GeoJSON geometry.
\<close>

definition shapely_box :: "real \<Rightarrow> real \<Rightarrow> real \<Rightarrow> real \<Rightarrow> (real \<times> real) list" where
  "shapely_box minx miny maxx maxy =
     polygon_ring [(maxx, miny), (maxx, maxy), (minx, maxy), (minx, miny)]"

definition shapely_mapping :: "(real \<times> real) list \<Rightarrow> geometry" where
  "shapely_mapping ring = \<lparr>g_type = ''Polygon'', g_coordinates = [ring]\<rparr>"

subsection \<open>\<^verbatim>\<open>json.dump\<close> with \<^verbatim>\<open>indent=2\<close>\<close>

text \<open>
  The encoder of the standard library with its defaults and an indentation of two
  spaces: the items of a list and the members of a dictionary each on a line of their
  own, separated by a comma, a key and its value by a colon and a space. A string is
  written between double quotes; the double quote, the backslash and every character
  outside the printable ASCII range are escaped.
\<close>

definition hex_digit :: "nat \<Rightarrow> char" where
  "hex_digit n = ''0123456789abcdef'' ! (n mod 16)"

definition hex4 :: "nat \<Rightarrow> string" where
  "hex4 n = [hex_digit (n div 4096), hex_digit (n div 256), hex_digit (n div 16), hex_digit n]"

definition escape_char :: "char \<Rightarrow> string" where
  "escape_char c =
     (if c = CHR 0x22 then [CHR 0x5C, CHR 0x22]
      else if c = CHR 0x5C then [CHR 0x5C, CHR 0x5C]
      else if c = CHR 0x0A then [CHR 0x5C, CHR ''n'']
      else if c = CHR 0x0D then [CHR 0x5C, CHR ''r'']
      else if c = CHR 0x09 then [CHR 0x5C, CHR ''t'']
      else if c = CHR 0x0C then [CHR 0x5C, CHR ''f'']
      else if c = CHR 0x08 then [CHR 0x5C, CHR ''b'']
      else if (of_char c :: nat) < 32 \<or> 126 < (of_char c :: nat)
        then [CHR 0x5C, CHR ''u''] @ hex4 (of_char c)
      else [c])"

definition encode_string :: "string \<Rightarrow> string" where
  "encode_string s = [CHR 0x22] @ concat (map escape_char s) @ [CHR 0x22]"

definition str_int :: "int \<Rightarrow> string" where
  "str_int i = (if i < 0 then ''-'' @ str_nat (nat (- i)) else str_nat (nat i))"

definition newline_indent :: "nat \<Rightarrow> string" where
  "newline_indent level = [CHR 0x0A] @ replicate (2 * level) CHR '' ''"

text \<open>The chunks of a non-empty container joined by the separator of its level.\<close>

fun join_chunks :: "string \<Rightarrow> string list \<Rightarrow> string" where
  "join_chunks sep [] = []"
| "join_chunks sep [x] = x"
| "join_chunks sep (x # xs) = x @ sep @ join_chunks sep xs"

fun encode :: "nat \<Rightarrow> json \<Rightarrow> string"
  and encode_items :: "nat \<Rightarrow> json list \<Rightarrow> string list"
  and encode_members :: "nat \<Rightarrow> (string \<times> json) list \<Rightarrow> string list" where
  "encode level JNull = ''null''"
| "encode level (JBool b) = (if b then ''true'' else ''false'')"
| "encode level (JInt i) = str_int i"
| "encode level (JStr s) = encode_string s"
| "encode level (JList xs) =
     (if xs = [] then ''[]''
      else ''['' @ newline_indent (level + 1) @
           join_chunks ('','' @ newline_indent (level + 1)) (encode_items (level + 1) xs) @
           newline_indent level @ '']'')"
| "encode level (JDict kvs) =
     (if kvs = [] then ''{}''
      else ''{'' @ newline_indent (level + 1) @
           join_chunks ('','' @ newline_indent (level + 1)) (encode_members (level + 1) kvs) @
           newline_indent level @ ''}'')"
| "encode_items level [] = []"
| "encode_items level (x # xs) = encode level x # encode_items level xs"
| "encode_members level [] = []"
| "encode_members level ((k, v) # kvs) =
     (encode_string k @ '': '' @ encode level v) # encode_members level kvs"

definition json_dumps_indent2 :: "json \<Rightarrow> string" where
  "json_dumps_indent2 obj = encode 0 obj"

subsection \<open>\<^verbatim>\<open>json.load\<close>\<close>

text \<open>
  The decoder of the standard library, by recursive descent. Numbers with a fraction or
  an exponent and characters beyond code point 255 have no value in \<^typ>\<open>json\<close>; the
  decoder returns \<open>None\<close> for them, as it does where Python raises
  \<^verbatim>\<open>JSONDecodeError\<close>. The first argument of the three mutually recursive functions
  bounds the number of calls; twice the length of the text and one more is enough, since
  of two calls in a row one reads a character.
\<close>

definition is_ws :: "char \<Rightarrow> bool" where
  "is_ws c = (c = CHR '' '' \<or> c = CHR 0x09 \<or> c = CHR 0x0A \<or> c = CHR 0x0D)"

definition skip_ws :: "string \<Rightarrow> string" where
  "skip_ws s = dropWhile is_ws s"

definition hex_val :: "char \<Rightarrow> nat option" where
  "hex_val c =
     (let n = (of_char c :: nat)
      in if 48 \<le> n \<and> n \<le> 57 then Some (n - 48)
         else if 97 \<le> n \<and> n \<le> 102 then Some (n - 87)
         else if 65 \<le> n \<and> n \<le> 70 then Some (n - 55)
         else None)"

definition unescape :: "char \<Rightarrow> char option" where
  "unescape e =
     (if e = CHR 0x22 \<or> e = CHR 0x5C \<or> e = CHR ''/'' then Some e
      else if e = CHR ''b'' then Some (CHR 0x08)
      else if e = CHR ''f'' then Some (CHR 0x0C)
      else if e = CHR ''n'' then Some (CHR 0x0A)
      else if e = CHR ''r'' then Some (CHR 0x0D)
      else if e = CHR ''t'' then Some (CHR 0x09)
      else None)"

definition unicode_escape :: "char \<Rightarrow> char \<Rightarrow> char \<Rightarrow> char \<Rightarrow> char option" where
  "unicode_escape a b c d =
     (case (hex_val a, hex_val b, hex_val c, hex_val d) of
        (Some w, Some x, Some y, Some z) \<Rightarrow>
          if w = 0 \<and> x = 0 then Some (char_of (16 * y + z)) else None
      | _ \<Rightarrow> None)"

definition cons_to :: "char \<Rightarrow> (string \<times> string) option \<Rightarrow> (string \<times> string) option" where
  "cons_to c r = (case r of None \<Rightarrow> None | Some (s, rest) \<Rightarrow> Some (c # s, rest))"

text \<open>The string that ends at the next unescaped double quote, and the text after it.\<close>

fun scanstring :: "string \<Rightarrow> (string \<times> string) option" where
  "scanstring [] = None"
| "scanstring [c] = (if c = CHR 0x22 then Some ([], []) else None)"
| "scanstring (c # e # r) =
     (if c = CHR 0x22 then Some ([], e # r)
      else if c = CHR 0x5C then
        (if e = CHR ''u'' then
           (case r of
              h1 # h2 # h3 # h4 # r' \<Rightarrow>
                (case unicode_escape h1 h2 h3 h4 of
                   None \<Rightarrow> None
                 | Some x \<Rightarrow> cons_to x (scanstring r'))
            | _ \<Rightarrow> None)
         else (case unescape e of
                 None \<Rightarrow> None
               | Some x \<Rightarrow> cons_to x (scanstring r)))
      else if (of_char c :: nat) < 32 then None
      else cons_to c (scanstring (e # r)))"

definition decimal :: "string \<Rightarrow> nat" where
  "decimal ds = foldl (\<lambda>a c. 10 * a + digit_val c) 0 ds"

text \<open>The text goes on with a fraction or an exponent: the number is a float.\<close>

definition is_float_tail :: "string \<Rightarrow> bool" where
  "is_float_tail r =
     (case r of
        [] \<Rightarrow> False
      | c # cs \<Rightarrow>
          if c = CHR ''.'' then cs \<noteq> [] \<and> is_digit (hd cs)
          else if c = CHR ''e'' \<or> c = CHR ''E'' then
            (case cs of
               [] \<Rightarrow> False
             | d # ds \<Rightarrow>
                 if d = CHR ''+'' \<or> d = CHR ''-'' then ds \<noteq> [] \<and> is_digit (hd ds)
                 else is_digit d)
          else False)"

definition scan_number :: "string \<Rightarrow> (json \<times> string) option" where
  "scan_number s =
     (let neg = (s \<noteq> [] \<and> hd s = CHR ''-'');
          r = (if neg then tl s else s);
          ds = (if r \<noteq> [] \<and> hd r = CHR ''0'' then ''0'' else takeWhile is_digit r);
          rest = drop (length ds) r
      in if ds = [] \<or> is_float_tail rest then None
         else Some (JInt (if neg then - int (decimal ds) else int (decimal ds)), rest))"

text \<open>\<^verbatim>\<open>dict(pairs)\<close>: a key that comes again keeps its place and takes the new value.\<close>

definition dict_of :: "(string \<times> json) list \<Rightarrow> (string \<times> json) list" where
  "dict_of pairs = foldl (\<lambda>d kv. AList.update (fst kv) (snd kv) d) [] pairs"

fun scan_once :: "nat \<Rightarrow> string \<Rightarrow> (json \<times> string) option"
  and parse_array :: "nat \<Rightarrow> json list \<Rightarrow> string \<Rightarrow> (json \<times> string) option"
  and parse_object :: "nat \<Rightarrow> (string \<times> json) list \<Rightarrow> string \<Rightarrow> (json \<times> string) option" where
  "scan_once 0 s = None"
| "scan_once (Suc n) s =
     (case s of
        [] \<Rightarrow> None
      | c # cs \<Rightarrow>
          if c = CHR 0x22 then
            (case scanstring cs of None \<Rightarrow> None | Some (x, r) \<Rightarrow> Some (JStr x, r))
          else if c = CHR ''{'' then
            (case skip_ws cs of
               [] \<Rightarrow> None
             | d # ds \<Rightarrow>
                 if d = CHR ''}'' then Some (JDict [], ds)
                 else if d = CHR 0x22 then parse_object n [] ds
                 else None)
          else if c = CHR ''['' then
            (case skip_ws cs of
               [] \<Rightarrow> None
             | d # ds \<Rightarrow>
                 if d = CHR '']'' then Some (JList [], ds)
                 else parse_array n [] (d # ds))
          else if take 4 s = ''null'' then Some (JNull, drop 4 s)
          else if take 4 s = ''true'' then Some (JBool True, drop 4 s)
          else if take 5 s = ''false'' then Some (JBool False, drop 5 s)
          else scan_number s)"
| "parse_array 0 vals s = None"
| "parse_array (Suc n) vals s =
     (case scan_once n s of
        None \<Rightarrow> None
      | Some (v, r) \<Rightarrow>
          (case skip_ws r of
             [] \<Rightarrow> None
           | d # ds \<Rightarrow>
               if d = CHR '']'' then Some (JList (vals @ [v]), ds)
               else if d \<noteq> CHR '','' then None
               else parse_array n (vals @ [v]) (skip_ws ds)))"
| "parse_object 0 pairs s = None"
| "parse_object (Suc n) pairs s =
     (case scanstring s of
        None \<Rightarrow> None
      | Some (key, r) \<Rightarrow>
          (case skip_ws r of
             [] \<Rightarrow> None
           | c # cs \<Rightarrow>
               if c \<noteq> CHR '':'' then None
               else
                 (case scan_once n (skip_ws cs) of
                    None \<Rightarrow> None
                  | Some (v, r2) \<Rightarrow>
                      (case skip_ws r2 of
                         [] \<Rightarrow> None
                       | d # ds \<Rightarrow>
                           if d = CHR ''}'' then Some (JDict (dict_of (pairs @ [(key, v)])), ds)
                           else if d \<noteq> CHR '','' then None
                           else
                             (case skip_ws ds of
                                [] \<Rightarrow> None
                              | q # qs \<Rightarrow>
                                  if q \<noteq> CHR 0x22 then None
                                  else parse_object n (pairs @ [(key, v)]) qs)))))"

definition json_loads :: "string \<Rightarrow> json option" where
  "json_loads s =
     (case scan_once (Suc (2 * length s)) (skip_ws s) of
        None \<Rightarrow> None
      | Some (v, r) \<Rightarrow> if skip_ws r = [] then Some v else None)"

subsection \<open>pystac\<close>

text \<open>
  Two things the script leaves to the installed version of pystac are parameters of the
  model. The first is the name of the file an item is saved to inside its directory:
  \<^verbatim>\<open><id>.json\<close> under the best-practices layout, \<^verbatim>\<open>item.json\<close> as lines 139 to 143
  of the script expect. The second is the relative form pystac computes for an absolute
  asset href; the script gives every asset a relative href, so it is never computed.
\<close>

datatype layout = Item_id_json | Item_json

record library =
  layout :: layout
  make_relative_href :: "string \<Rightarrow> string \<Rightarrow> string"

definition item_file_name :: "layout \<Rightarrow> string \<Rightarrow> string" where
  "item_file_name l i = (case l of Item_id_json \<Rightarrow> i @ ''.json'' | Item_json \<Rightarrow> ''item.json'')"

text \<open>
  \<^verbatim>\<open>pystac.Item(id, geometry, bbox, datetime, properties)\<close>: an item without a datetime
  must have both \<^verbatim>\<open>start_datetime\<close> and \<^verbatim>\<open>end_datetime\<close> among its properties.
\<close>

definition pystac_Item ::
  "string \<Rightarrow> geometry \<Rightarrow> real list \<Rightarrow> datetime option \<Rightarrow> (string \<times> json) list \<Rightarrow> error + item" where
  "pystac_Item i g b dt props =
     (if dt = None \<and> (map_of props ''start_datetime'' = None \<or> map_of props ''end_datetime'' = None)
      then Inl STACError
      else Inr \<lparr>i_id = i, i_geometry = g, i_bbox = b, i_datetime = dt, i_properties = props,
                i_assets = [], i_self_href = None\<rparr>)"

definition pystac_Catalog :: "string \<Rightarrow> string \<Rightarrow> catalog" where
  "pystac_Catalog i d = \<lparr>c_id = i, c_description = d, c_items = [], c_self_href = None\<rparr>"

text \<open>\<^verbatim>\<open>item.add_asset(key, asset)\<close>: \<^verbatim>\<open>item.assets[key] = asset\<close>.\<close>

definition add_asset :: "item \<Rightarrow> string \<Rightarrow> asset \<Rightarrow> item" where
  "add_asset it key a = it\<lparr>i_assets := AList.update key a (i_assets it)\<rparr>"

definition add_item :: "catalog \<Rightarrow> item \<Rightarrow> catalog" where
  "add_item cat it = cat\<lparr>c_items := c_items cat @ [it]\<rparr>"

text \<open>
  \<^verbatim>\<open>catalog.normalize_hrefs(root_href)\<close>: the catalog is to be saved at
  \<^verbatim>\<open><root>/catalog.json\<close> and each item in a directory named after it. The items of the
  script have no self href before, so that setting it rewrites no asset href.
\<close>

definition normalize_hrefs :: "library \<Rightarrow> catalog \<Rightarrow> string \<Rightarrow> catalog" where
  "normalize_hrefs lib cat root_href =
     cat\<lparr>c_self_href := Some (os_path_join root_href ''catalog.json''),
         c_items :=
           map (\<lambda>it. it\<lparr>i_self_href :=
                           Some (os_path_join (os_path_join root_href (i_id it))
                                   (item_file_name (layout lib) (i_id it)))\<rparr>)
             (c_items cat)\<rparr>"

text \<open>
  \<^verbatim>\<open>is_absolute_href(href)\<close>: the href has a scheme other than \<^verbatim>\<open>file\<close>, or its path
  starts with a slash. \<^verbatim>\<open>urlparse\<close> takes as the scheme what stands before the first
  colon when that starts with a letter and consists of letters, digits, \<^verbatim>\<open>+\<close>, \<^verbatim>\<open>-\<close>
  and \<^verbatim>\<open>.\<close>, and as the path what follows the scheme and the network location, up to
  a \<^verbatim>\<open>?\<close> or a \<^verbatim>\<open>#\<close>. \<^verbatim>\<open>safe_urlparse\<close> of pystac takes a scheme followed by
  a colon and a backslash, or by a colon and one slash but not two, for the drive of a
  Windows path: the href has no scheme then, and its path starts with the drive.
\<close>

definition is_alpha :: "char \<Rightarrow> bool" where
  "is_alpha c =
     (let n = (of_char c :: nat) in (65 \<le> n \<and> n \<le> 90) \<or> (97 \<le> n \<and> n \<le> 122))"

definition lower :: "char \<Rightarrow> char" where
  "lower c = (let n = (of_char c :: nat) in if 65 \<le> n \<and> n \<le> 90 then char_of (n + 32) else c)"

definition url_scheme :: "string \<Rightarrow> string \<times> string" where
  "url_scheme url =
     (let pre = takeWhile (\<lambda>c. c \<noteq> CHR '':'') url
      in if length pre < length url \<and> pre \<noteq> [] \<and> is_alpha (hd pre)
            \<and> list_all (\<lambda>c. is_alpha c \<or> is_digit c \<or> c = CHR ''+'' \<or> c = CHR ''-'' \<or> c = CHR ''.'') pre
         then (map lower pre, drop (length pre + 1) url)
         else ([], url))"

definition url_path :: "string \<Rightarrow> string" where
  "url_path rest =
     (let r = (if take 2 rest = ''//''
               then dropWhile (\<lambda>c. c \<noteq> CHR ''/'' \<and> c \<noteq> CHR ''?'' \<and> c \<noteq> CHR ''#'') (drop 2 rest)
               else rest)
      in takeWhile (\<lambda>c. c \<noteq> CHR ''?'' \<and> c \<noteq> CHR ''#'') r)"

definition safe_urlparse :: "string \<Rightarrow> string \<times> string" where
  "safe_urlparse h =
     (case url_scheme h of
        (scheme, rest) \<Rightarrow>
          if scheme \<noteq> [] \<and>
             (take 1 rest = [CHR 0x5C] \<or> (take 1 rest = ''/'' \<and> take 2 rest \<noteq> ''//''))
          then ([], take (length scheme) h @ '':'' @ url_path rest)
          else (scheme, url_path rest))"

definition is_absolute_href :: "string \<Rightarrow> bool" where
  "is_absolute_href h =
     (case safe_urlparse h of
        (scheme, path) \<Rightarrow>
          (scheme \<noteq> [] \<and> scheme \<noteq> ''file'') \<or> (path \<noteq> [] \<and> hd path = CHR ''/''))"

text \<open>
  \<^verbatim>\<open>item.make_asset_hrefs_relative()\<close>: an absolute asset href is replaced by its form
  relative to the self href of the item, which must be set then; a relative one stays.
\<close>

definition make_asset_hrefs_relative :: "library \<Rightarrow> item \<Rightarrow> error + item" where
  "make_asset_hrefs_relative lib it =
     (case i_self_href it of
        None \<Rightarrow>
          if list_ex (\<lambda>ka. is_absolute_href (href (snd ka))) (i_assets it) then Inl STACError
          else Inr it
      | Some self_href \<Rightarrow>
          Inr (it\<lparr>i_assets :=
                    map (\<lambda>ka. (fst ka,
                               if is_absolute_href (href (snd ka))
                               then (snd ka)\<lparr>href := make_relative_href lib (href (snd ka)) self_href\<rparr>
                               else snd ka))
                      (i_assets it)\<rparr>))"

fun make_all_items_relative :: "library \<Rightarrow> item list \<Rightarrow> error + item list" where
  "make_all_items_relative lib [] = Inr []"
| "make_all_items_relative lib (it # its) =
     and_then (make_asset_hrefs_relative lib it) (\<lambda>it'.
     and_then (make_all_items_relative lib its) (\<lambda>its'. Inr (it' # its')))"

definition make_all_asset_hrefs_relative :: "library \<Rightarrow> catalog \<Rightarrow> error + catalog" where
  "make_all_asset_hrefs_relative lib cat =
     and_then (make_all_items_relative lib (c_items cat)) (\<lambda>its. Inr (cat\<lparr>c_items := its\<rparr>))"

text \<open>
  \<^verbatim>\<open>item.to_dict()\<close> puts the datetime of the item among its properties, under the key
  \<^verbatim>\<open>datetime\<close>, in the item itself and so in the document written from it. pystac
  takes a naive datetime for UTC and writes it as its \<^verbatim>\<open>isoformat()\<close> followed by Z.
\<close>

definition datetime_to_str :: "datetime \<Rightarrow> string" where
  "datetime_to_str t = isoformat t @ ''Z''"

definition to_dict :: "item \<Rightarrow> item" where
  "to_dict it =
     it\<lparr>i_properties :=
          AList.update ''datetime''
            (case i_datetime it of None \<Rightarrow> JNull | Some t \<Rightarrow> JStr (datetime_to_str t))
            (i_properties it)\<rparr>"

text \<open>
  \<^verbatim>\<open>catalog.save(catalog_type=SELF_CONTAINED)\<close>: every item, then the catalog, is
  written to its self href, which must be set. The items are returned as saving left
  them.
\<close>

fun save_items :: "fs \<Rightarrow> item list \<Rightarrow> error + fs \<times> item list" where
  "save_items files [] = Inr (files, [])"
| "save_items files (it # its) =
     (case i_self_href it of
        None \<Rightarrow> Inl STACError
      | Some h \<Rightarrow>
          and_then (save_items (write_file files h (Item_document (to_dict it))) its)
            (\<lambda>(files', its'). Inr (files', to_dict it # its')))"

definition save :: "fs \<Rightarrow> catalog \<Rightarrow> error + fs \<times> catalog" where
  "save files cat =
     and_then (save_items files (c_items cat)) (\<lambda>(files', its').
       case c_self_href cat of
         None \<Rightarrow> Inl STACError
       | Some h \<Rightarrow>
           Inr (write_file files' h (Catalog_document (cat\<lparr>c_items := its'\<rparr>)),
                cat\<lparr>c_items := its'\<rparr>))"

subsection \<open>The script\<close>

text \<open>Step 1 (lines 22 to 25): the bounding box and the geometry.\<close>

definition read_spatial_info :: "fs \<Rightarrow> error + real list \<times> geometry" where
  "read_spatial_info files =
     and_then (rasterio_open files tif_path) (\<lambda>src.
       let b = bounds src;
           bbox = [left b, bottom b, right b, top' b];
           geometry = shapely_mapping (shapely_box (bbox ! 0) (bbox ! 1) (bbox ! 2) (bbox ! 3))
       in Inr (bbox, geometry))"

text \<open>Step 2 (lines 28 to 45), with the raster opened a second time.\<close>

definition read_date_info ::
  "fs \<Rightarrow> error + (datetime option \<times> datetime option) \<times> message list" where
  "read_date_info files =
     and_then (rasterio_open files tif_path) (\<lambda>src. Inr (set_date_info (tags src)))"

text \<open>
  Step 3 (lines 48 to 62). \<^verbatim>\<open>start_dt.isoformat()\<close> raises \<^verbatim>\<open>AttributeError\<close> when the
  variable is \<^verbatim>\<open>None\<close>.
\<close>

definition isoformat_of :: "datetime option \<Rightarrow> error + string" where
  "isoformat_of v = (case v of None \<Rightarrow> Inl AttributeError | Some t \<Rightarrow> Inr (isoformat t))"

definition create_catalog :: catalog where
  "create_catalog =
     pystac_Catalog ''gobindpur-lulc-catalog''
       ''STAC Catalog for Gobindpur LULC 2023-24 with metadata and thumbnail''"

definition create_item ::
  "geometry \<Rightarrow> real list \<Rightarrow> datetime option \<Rightarrow> datetime option \<Rightarrow> error + item" where
  "create_item geometry bbox start_dt end_dt =
     and_then (isoformat_of start_dt) (\<lambda>s.
     and_then (isoformat_of end_dt) (\<lambda>e.
       pystac_Item item_id geometry bbox start_dt
         [(''start_datetime'', JStr (s @ ''Z'')), (''end_datetime'', JStr (e @ ''Z''))]))"

text \<open>Step 4 (lines 65 to 73).\<close>

definition raster_asset :: asset where
  "raster_asset =
     \<lparr>href = ''../../data/gobindpur_lulc_2023_2024.tif'',
      media_type = ''image/tiff; application=geotiff'',
      roles = [''data'', ''download''],
      title = ''Gobindpur LULC Raster (GeoTIFF)''\<rparr>"

definition add_raster_asset :: "item \<Rightarrow> item" where
  "add_raster_asset it = add_asset it ''raster-data'' raster_asset"

text \<open>Step 5 (lines 76 to 87).\<close>

definition style_asset :: asset where
  "style_asset =
     \<lparr>href = ''../../data/style_file.qml'',
      media_type = ''application/xml'',
      roles = [''style'', ''download''],
      title = ''QGIS Style File (QML)''\<rparr>"

definition add_qgis_style :: "fs \<Rightarrow> item \<Rightarrow> item \<times> message list" where
  "add_qgis_style files it =
     (if os_path_exists files qgis_style_path
      then (add_asset it ''qgis-style'' style_asset, [])
      else (it, [Qml_not_found]))"

text \<open>Step 6 (lines 90 to 107): the image is written beside the raster.\<close>

definition thumb_path :: string where
  "thumb_path = os_path_join data_dir ''thumbnail.png''"

definition thumbnail_asset :: asset where
  "thumbnail_asset =
     \<lparr>href = ''../../data/thumbnail.png'',
      media_type = ''image/png'',
      roles = [''thumbnail''],
      title = ''Thumbnail Preview''\<rparr>"

definition add_thumbnail :: "fs \<Rightarrow> item \<Rightarrow> error + fs \<times> item" where
  "add_thumbnail files it =
     and_then (rasterio_open files tif_path) (\<lambda>src.
     and_then (read_band src 1) (\<lambda>array.
       Inr (write_file files thumb_path (PNG array), add_asset it ''thumbnail'' thumbnail_asset)))"

text \<open>Step 7 (lines 110 to 131).\<close>

definition lulc_classes :: json where
  "lulc_classes =
     JList
       [JDict [(''value'', JInt 1), (''name'', JStr ''Water'')],
        JDict [(''value'', JInt 2), (''name'', JStr ''Urban'')],
        JDict [(''value'', JInt 3), (''name'', JStr ''Forest'')],
        JDict [(''value'', JInt 4), (''name'', JStr ''Cropland'')],
        JDict [(''value'', JInt 5), (''name'', JStr ''Barren'')]]"

definition legend_path :: string where
  "legend_path = os_path_join data_dir ''legend.json''"

definition legend_asset :: asset where
  "legend_asset =
     \<lparr>href = ''../../data/legend.json'',
      media_type = ''application/json'',
      roles = [''legend''],
      title = ''LULC Legend (JSON)''\<rparr>"

definition add_classification :: "fs \<Rightarrow> item \<Rightarrow> fs \<times> item" where
  "add_classification files it =
     (let it1 = it\<lparr>i_properties :=
                     AList.update ''classification:classes'' lulc_classes (i_properties it)\<rparr>;
          files1 = write_file files legend_path (Text (json_dumps_indent2 lulc_classes))
      in (files1, add_asset it1 ''legend'' legend_asset))"

text \<open>Step 8 (lines 134 to 137).\<close>

definition final_save :: "library \<Rightarrow> fs \<Rightarrow> catalog \<Rightarrow> item \<Rightarrow> error + fs \<times> catalog" where
  "final_save lib files cat it =
     (let cat1 = add_item cat it;
          cat2 = normalize_hrefs lib cat1 output_dir
      in and_then (make_all_asset_hrefs_relative lib cat2) (\<lambda>cat3. save files cat3))"

text \<open>The renaming of the item file (lines 140 to 143).\<close>

definition default_item_path :: string where
  "default_item_path = os_path_join item_dir ''item.json''"

definition custom_item_path :: string where
  "custom_item_path = os_path_join item_dir (item_id @ ''.json'')"

definition rename_item_file :: "fs \<Rightarrow> error + fs" where
  "rename_item_file files =
     (if os_path_exists files default_item_path
      then os_rename files default_item_path custom_item_path
      else Inr files)"

text \<open>The last lines printed (lines 145 to 150).\<close>

definition summary :: "message list" where
  "summary =
     [Catalog_created, With_start_end, With_thumbnail, With_legend,
      Catalog_json_at (os_path_join output_dir ''catalog.json''),
      Item_at custom_item_path]"

text \<open>
  A run that reaches the end of the script: the variables of the script, the files and
  the lines printed. The Python variable \<^verbatim>\<open>item\<close> is the object the catalog holds.
  \<^verbatim>\<open>os.makedirs\<close> (line 19) changes no file.
\<close>

record outcome =
  o_bbox :: "real list"
  o_geometry :: geometry
  o_start_dt :: "datetime option"
  o_end_dt :: "datetime option"
  o_catalog :: catalog
  o_files :: fs
  o_printed :: "message list"

definition run :: "library \<Rightarrow> fs \<Rightarrow> error + outcome" where
  "run lib files =
     and_then (read_spatial_info files) (\<lambda>(bbox, geometry).
     and_then (read_date_info files) (\<lambda>((start_dt, end_dt), out2).
     and_then (create_item geometry bbox start_dt end_dt) (\<lambda>it3.
       let it4 = add_raster_asset it3;
           (it5, out5) = add_qgis_style files it4
       in and_then (add_thumbnail files it5) (\<lambda>(files6, it6).
            let (files7, it7) = add_classification files6 it6
            in and_then (final_save lib files7 create_catalog it7) (\<lambda>(files8, cat8).
               and_then (rename_item_file files8) (\<lambda>files9.
                 Inr \<lparr>o_bbox = bbox, o_geometry = geometry,
                      o_start_dt = start_dt, o_end_dt = end_dt,
                      o_catalog = cat8, o_files = files9,
                      o_printed = out2 @ out5 @ summary\<rparr>))))))"

subsection \<open>Two file systems to run the script on\<close>

text \<open>
  The scenarios of the specification: a raster with the bounds (10, 20, 30, 40) and the
  tag \<^verbatim>\<open>2023:06:15 00:00:00\<close> beside a style file; and the same raster without the tag
  and without the style file.
\<close>

definition example_raster :: raster where
  "example_raster =
     \<lparr>bounds = \<lparr>left = 10, bottom = 20, right = 30, top' = 40\<rparr>,
      tags = [''TIFFTAG_DATETIME'' \<mapsto> ''2023:06:15 00:00:00''],
      band1 = [[1, 2], [3, 4]],
      more_bands = []\<rparr>"

definition example_files :: fs where
  "example_files = [tif_path \<mapsto> GeoTIFF example_raster, qgis_style_path \<mapsto> Text ''<qgis/>'']"

definition bare_files :: fs where
  "bare_files = [tif_path \<mapsto> GeoTIFF (example_raster\<lparr>tags := Map.empty\<rparr>)]"

text \<open>
  A raster whose rows run from south to north: rasterio gives it a bottom above its top.
\<close>

definition south_up_raster :: raster where
  "south_up_raster = example_raster\<lparr>bounds := \<lparr>left = 10, bottom = 40, right = 30, top' = 20\<rparr>\<rparr>"

definition south_up_files :: fs where
  "south_up_files = [tif_path \<mapsto> GeoTIFF south_up_raster]"

definition example_library :: library where
  "example_library = \<lparr>layout = Item_id_json, make_relative_href = (\<lambda>source start. source)\<rparr>"

section \<open>Properties\<close>

subsection \<open>The date of the item\<close>

lemma strptime_empty: "strptime [] = Inl (ValueError ''time data does not match format'')"
  by (simp add: strptime_def re_format_def re_then_def re_Y_def re_digits2_def)

lemma strptime_example: "strptime ''2023:06:15 00:00:00'' = Inr (datetime_ymd 2023 6 15)"
  by (simp add: strptime_def re_format_def re_then_def re_skip_def re_Y_def re_m_def re_d_def
      re_H_def re_M_def re_S_def re_digits2_def is_digit_def digit_val_def is_space_def
      datetime_new_def datetime_ymd_def days_in_month_def is_leap_def)

lemma strptime_junk: "strptime ''junk'' = Inl (ValueError ''time data does not match format'')"
  by (simp add: strptime_def re_format_def re_then_def re_Y_def re_digits2_def is_digit_def)

lemma fallback_order: "dt_less (datetime_ymd 2023 6 1) (datetime_ymd 2024 3 31)"
  by (simp add: dt_less_def dt_fields_def datetime_ymd_def)

lemma fallback_distinct: "datetime_ymd 2023 6 1 \<noteq> datetime_ymd 2024 3 31"
  by (simp add: datetime_ymd_def)

lemmas date_info_defs =
  set_date_info_def read_date_tag_def date_fallback_def

lemma date_info_parsed:
  assumes "tg ''TIFFTAG_DATETIME'' = Some s" and "strptime s = Inr dt"
  shows "set_date_info tg = ((Some dt, Some dt), [])"
proof -
  from assms(2) have "s \<noteq> []"
    using strptime_empty by auto
  with assms show ?thesis
    by (simp add: date_info_defs)
qed

lemma date_info_absent:
  assumes "tg ''TIFFTAG_DATETIME'' = None"
  shows "set_date_info tg = ((Some (datetime_ymd 2023 6 1), Some (datetime_ymd 2024 3 31)), [])"
  using assms by (simp add: date_info_defs)

lemma date_info_malformed:
  assumes "tg ''TIFFTAG_DATETIME'' = Some s" and "strptime s = Inl e"
  shows "fst (set_date_info tg) = (Some (datetime_ymd 2023 6 1), Some (datetime_ymd 2024 3 31))"
  using assms by (simp add: date_info_defs)

lemma date_info_warns:
  assumes "tg ''TIFFTAG_DATETIME'' = Some s" and "s \<noteq> []" and "strptime s = Inl e"
  shows "snd (set_date_info tg) = [Failed_to_parse e]"
  using assms by (simp add: date_info_defs)

lemma date_info_set: "\<exists>s e. fst (set_date_info tg) = (Some s, Some e)"
proof (cases "tg ''TIFFTAG_DATETIME''")
  case None
  then show ?thesis by (simp add: date_info_absent)
next
  case (Some x)
  then show ?thesis
    by (cases "strptime x") (simp_all add: date_info_malformed date_info_parsed)
qed

text \<open>
  C1: when the tag \<^verbatim>\<open>TIFFTAG_DATETIME\<close> is present and \<^verbatim>\<open>strptime\<close> parses it under
  the format \<^verbatim>\<open>%Y:%m:%d %H:%M:%S\<close>, \<open>start_dt\<close> and \<open>end_dt\<close> are both the parsed
  datetime; when the tag is absent, and when it is present and does not parse, they are
  \<^verbatim>\<open>datetime(2023, 6, 1)\<close> and \<^verbatim>\<open>datetime(2024, 3, 31)\<close>, and the first of these is
  strictly before the second.
\<close>

theorem date_info_parsed_or_fallback:
  "(tg ''TIFFTAG_DATETIME'' = Some s \<and> strptime s = Inr dt \<longrightarrow>
      fst (set_date_info tg) = (Some dt, Some dt)) \<and>
   (tg ''TIFFTAG_DATETIME'' = None \<longrightarrow>
      fst (set_date_info tg) = (Some (datetime_ymd 2023 6 1), Some (datetime_ymd 2024 3 31))) \<and>
   (tg ''TIFFTAG_DATETIME'' = Some s \<and> strptime s = Inl e \<longrightarrow>
      fst (set_date_info tg) = (Some (datetime_ymd 2023 6 1), Some (datetime_ymd 2024 3 31))) \<and>
   dt_less (datetime_ymd 2023 6 1) (datetime_ymd 2024 3 31)"
  using fallback_order
  by (simp add: date_info_parsed date_info_absent date_info_malformed)

theorem date_info_parsed_or_fallback_witness:
  "fst (set_date_info [''TIFFTAG_DATETIME'' \<mapsto> ''2023:06:15 00:00:00'']) =
     (Some (datetime_ymd 2023 6 15), Some (datetime_ymd 2023 6 15)) \<and>
   fst (set_date_info Map.empty) = (Some (datetime_ymd 2023 6 1), Some (datetime_ymd 2024 3 31)) \<and>
   fst (set_date_info [''TIFFTAG_DATETIME'' \<mapsto> ''junk'']) =
     (Some (datetime_ymd 2023 6 1), Some (datetime_ymd 2024 3 31))"
  using date_info_parsed_or_fallback
          [of "[''TIFFTAG_DATETIME'' \<mapsto> ''2023:06:15 00:00:00'']" "''2023:06:15 00:00:00''"
              "datetime_ymd 2023 6 15"]
        date_info_parsed_or_fallback [of Map.empty]
        date_info_parsed_or_fallback
          [of "[''TIFFTAG_DATETIME'' \<mapsto> ''junk'']" "''junk''" _
              "ValueError ''time data does not match format''"]
        strptime_example strptime_junk
  by simp

text \<open>
  C9: whatever the tag is (absent, malformed or well formed), after step 2 both
  \<open>start_dt\<close> and \<open>end_dt\<close> are set, \<open>start_dt \<le> end_dt\<close>, and exactly one of the two
  outcomes holds: both are the datetime parsed from the tag, or they are the two
  fallback dates.
\<close>

theorem date_info_pair_ordered:
  "\<exists>s e. fst (set_date_info tg) = (Some s, Some e) \<and> dt_le s e \<and>
     (((\<exists>x. tg ''TIFFTAG_DATETIME'' = Some x \<and> strptime x = Inr s) \<and> e = s \<and>
         \<not> (s = datetime_ymd 2023 6 1 \<and> e = datetime_ymd 2024 3 31)) \<or>
      ((s = datetime_ymd 2023 6 1 \<and> e = datetime_ymd 2024 3 31) \<and>
         \<not> ((\<exists>x. tg ''TIFFTAG_DATETIME'' = Some x \<and> strptime x = Inr s) \<and> e = s)))"
proof (cases "tg ''TIFFTAG_DATETIME''")
  case None
  then have "fst (set_date_info tg) = (Some (datetime_ymd 2023 6 1), Some (datetime_ymd 2024 3 31))"
    by (simp add: date_info_absent)
  with None show ?thesis
    using fallback_order fallback_distinct by (auto simp: dt_le_def)
next
  case (Some x)
  show ?thesis
  proof (cases "strptime x")
    case (Inl err)
    with Some
    have "fst (set_date_info tg) = (Some (datetime_ymd 2023 6 1), Some (datetime_ymd 2024 3 31))"
      by (simp add: date_info_malformed)
    with Some Inl show ?thesis
      using fallback_order fallback_distinct by (auto simp: dt_le_def)
  next
    case (Inr dt)
    with Some have "fst (set_date_info tg) = (Some dt, Some dt)"
      by (simp add: date_info_parsed)
    with Some Inr show ?thesis
      using fallback_distinct by (auto simp: dt_le_def)
  qed
qed

theorem date_info_pair_ordered_witness:
  "\<exists>s e. fst (set_date_info [''TIFFTAG_DATETIME'' \<mapsto> ''junk'']) = (Some s, Some e) \<and> dt_le s e"
  using date_info_pair_ordered [of "[''TIFFTAG_DATETIME'' \<mapsto> ''junk'']"]
  by blast

text \<open>
  C10: when the tag is present and is the empty string, the block of lines 31 to 40
  leaves both variables unset and prints nothing, although \<^verbatim>\<open>strptime\<close> would have
  raised on the empty string; step 2 as a whole gives the fallback dates and prints
  nothing, which is what it does when the tag is absent.
\<close>

theorem empty_tag_as_absent:
  "tg ''TIFFTAG_DATETIME'' = Some [] \<Longrightarrow>
     read_date_tag tg = (None, None, []) \<and>
     (\<exists>e. strptime [] = Inl e) \<and>
     set_date_info tg = ((Some (datetime_ymd 2023 6 1), Some (datetime_ymd 2024 3 31)), []) \<and>
     set_date_info tg = set_date_info (tg(''TIFFTAG_DATETIME'' := None))"
  by (simp add: date_info_defs strptime_empty)

theorem empty_tag_as_absent_witness:
  "set_date_info [''TIFFTAG_DATETIME'' \<mapsto> []] =
     ((Some (datetime_ymd 2023 6 1), Some (datetime_ymd 2024 3 31)), []) \<and>
   read_date_tag [''TIFFTAG_DATETIME'' \<mapsto> []] = (None, None, [])"
  using empty_tag_as_absent [of "[''TIFFTAG_DATETIME'' \<mapsto> []]"]
  by simp

subsection \<open>The paths and the hrefs\<close>

lemma data_dir_eq: "data_dir = ''/home/vishnu/corestack_STAC/data''"
  by (simp add: data_dir_def tif_path_def os_path_dirname_def rstrip_slash_def)

lemma item_dir_eq: "item_dir = ''/home/vishnu/corestack_STAC/output_catalog_lulc/gobindpur-lulc''"
  by (simp add: item_dir_def output_dir_def item_id_def os_path_join_def)

lemma thumb_path_eq: "thumb_path = ''/home/vishnu/corestack_STAC/data/thumbnail.png''"
  by (simp add: thumb_path_def data_dir_eq os_path_join_def)

lemma legend_path_eq: "legend_path = ''/home/vishnu/corestack_STAC/data/legend.json''"
  by (simp add: legend_path_def data_dir_eq os_path_join_def)

lemma default_item_path_eq:
  "default_item_path = ''/home/vishnu/corestack_STAC/output_catalog_lulc/gobindpur-lulc/item.json''"
  by (simp add: default_item_path_def item_dir_eq os_path_join_def)

lemma custom_item_path_eq:
  "custom_item_path =
     ''/home/vishnu/corestack_STAC/output_catalog_lulc/gobindpur-lulc/gobindpur-lulc.json''"
  by (simp add: custom_item_path_def item_dir_eq item_id_def os_path_join_def)

lemma catalog_path_eq:
  "os_path_join output_dir ''catalog.json'' =
     ''/home/vishnu/corestack_STAC/output_catalog_lulc/catalog.json''"
  by (simp add: output_dir_def os_path_join_def)

lemma item_path_eq:
  "os_path_join (os_path_join output_dir item_id) (item_file_name l item_id) =
     (case l of Item_id_json \<Rightarrow> custom_item_path | Item_json \<Rightarrow> default_item_path)"
  by (cases l)
     (simp_all add: item_file_name_def custom_item_path_def default_item_path_def item_dir_def)

lemma relative_hrefs:
  "\<not> is_absolute_href (href raster_asset)"
  "\<not> is_absolute_href (href style_asset)"
  "\<not> is_absolute_href (href thumbnail_asset)"
  "\<not> is_absolute_href (href legend_asset)"
  by (simp_all add: is_absolute_href_def safe_urlparse_def url_scheme_def url_path_def raster_asset_def
      style_asset_def thumbnail_asset_def legend_asset_def)

lemma resolve_thumbnail:
  "os_path_normpath (os_path_join item_dir (href thumbnail_asset)) = thumb_path"
  by (simp add: item_dir_eq thumb_path_eq thumbnail_asset_def os_path_join_def os_path_normpath_def)

lemma resolve_legend:
  "os_path_normpath (os_path_join item_dir (href legend_asset)) = legend_path"
  by (simp add: item_dir_eq legend_path_eq legend_asset_def os_path_join_def os_path_normpath_def)

subsection \<open>The run as a whole\<close>

lemma spatial_info:
  assumes "files tif_path = Some (GeoTIFF src)"
  shows "read_spatial_info files =
           Inr ([left (bounds src), bottom (bounds src), right (bounds src), top' (bounds src)],
                shapely_mapping (shapely_box (left (bounds src)) (bottom (bounds src))
                  (right (bounds src)) (top' (bounds src))))"
  using assms by (simp add: read_spatial_info_def rasterio_open_def and_then_def Let_def)

lemma date_info:
  assumes "files tif_path = Some (GeoTIFF src)"
  shows "read_date_info files = Inr (set_date_info (tags src))"
  using assms by (simp add: read_date_info_def rasterio_open_def and_then_def)

lemma created_item:
  "create_item g b (Some s) (Some e) =
     Inr \<lparr>i_id = item_id, i_geometry = g, i_bbox = b, i_datetime = Some s,
          i_properties = [(''start_datetime'', JStr (isoformat s @ ''Z'')),
                          (''end_datetime'', JStr (isoformat e @ ''Z''))],
          i_assets = [], i_self_href = None\<rparr>"
  by (simp add: create_item_def isoformat_of_def and_then_def pystac_Item_def)

lemma assets_after_step5:
  assumes "i_assets it = []"
  shows "fst (add_qgis_style files (add_raster_asset it)) =
           it\<lparr>i_assets := (''raster-data'', raster_asset) #
                  (if os_path_exists files qgis_style_path then [(''qgis-style'', style_asset)] else [])\<rparr>"
    and "snd (add_qgis_style files (add_raster_asset it)) =
           (if os_path_exists files qgis_style_path then [] else [Qml_not_found])"
  using assms by (simp_all add: add_qgis_style_def add_raster_asset_def add_asset_def)

lemma thumbnail_added:
  assumes "files tif_path = Some (GeoTIFF src)"
    and "i_assets it = (''raster-data'', ra) # (if st then [(''qgis-style'', sa)] else [])"
  shows "add_thumbnail files it =
           Inr (files(thumb_path \<mapsto> PNG (band1 src)),
                it\<lparr>i_assets := (''raster-data'', ra) # (if st then [(''qgis-style'', sa)] else [])
                       @ [(''thumbnail'', thumbnail_asset)]\<rparr>)"
  using assms
  by (simp add: add_thumbnail_def rasterio_open_def read_band_def and_then_def write_file_def
      add_asset_def)

lemma classification_added:
  assumes "i_assets it = (''raster-data'', ra) # (if st then [(''qgis-style'', sa)] else [])
                       @ [(''thumbnail'', ta)]"
    and "i_properties it = [(''start_datetime'', x), (''end_datetime'', y)]"
  shows "add_classification files it =
           (files(legend_path \<mapsto> Text (json_dumps_indent2 lulc_classes)),
            it\<lparr>i_properties := [(''start_datetime'', x), (''end_datetime'', y),
                                 (''classification:classes'', lulc_classes)],
               i_assets := (''raster-data'', ra) # (if st then [(''qgis-style'', sa)] else [])
                       @ [(''thumbnail'', ta), (''legend'', legend_asset)]\<rparr>)"
  using assms
  by (simp add: add_classification_def write_file_def add_asset_def)

lemma saved_catalog:
  assumes "i_assets it = (''raster-data'', raster_asset) #
             (if st then [(''qgis-style'', style_asset)] else [])
             @ [(''thumbnail'', thumbnail_asset), (''legend'', legend_asset)]"
    and "i_id it = item_id"
  shows "final_save lib files create_catalog it =
           (let p = (case layout lib of Item_id_json \<Rightarrow> custom_item_path | Item_json \<Rightarrow> default_item_path);
                it' = to_dict (it\<lparr>i_self_href := Some p\<rparr>);
                cat = \<lparr>c_id = ''gobindpur-lulc-catalog'',
                       c_description = ''STAC Catalog for Gobindpur LULC 2023-24 with metadata and thumbnail'',
                       c_items = [it'],
                       c_self_href = Some (os_path_join output_dir ''catalog.json'')\<rparr>
            in Inr (files(p \<mapsto> Item_document it',
                          os_path_join output_dir ''catalog.json'' \<mapsto> Catalog_document cat), cat))"
proof -
  have rel: "map (\<lambda>ka. (fst ka,
               if is_absolute_href (href (snd ka))
               then (snd ka)\<lparr>href := make_relative_href lib (href (snd ka)) h\<rparr>
               else snd ka)) (i_assets it) = i_assets it" for h
    using relative_hrefs by (simp add: assms(1))
  show ?thesis
    by (simp add: final_save_def add_item_def normalize_hrefs_def create_catalog_def
        pystac_Catalog_def make_all_asset_hrefs_relative_def make_asset_hrefs_relative_def
        and_then_def rel save_def write_file_def assms(2) item_path_eq Let_def)
qed


lemma renamed:
  "rename_item_file files =
     Inr (case files default_item_path of
            None \<Rightarrow> files
          | Some c \<Rightarrow> (files(default_item_path := None))(custom_item_path \<mapsto> c))"
  by (simp add: rename_item_file_def os_path_exists_def os_rename_def split: option.split)

lemma run_success:
  fixes lib :: library and files :: fs and src :: raster and s e :: datetime
  defines "b \<equiv> bounds src"
  defines "st \<equiv> os_path_exists files qgis_style_path"
  defines "p \<equiv> (case layout lib of Item_id_json \<Rightarrow> custom_item_path | Item_json \<Rightarrow> default_item_path)"
  defines "it \<equiv>
     \<lparr>i_id = item_id,
      i_geometry = shapely_mapping (shapely_box (left b) (bottom b) (right b) (top' b)),
      i_bbox = [left b, bottom b, right b, top' b],
      i_datetime = Some s,
      i_properties = [(''start_datetime'', JStr (isoformat s @ ''Z'')),
                      (''end_datetime'', JStr (isoformat e @ ''Z'')),
                      (''classification:classes'', lulc_classes),
                      (''datetime'', JStr (isoformat s @ ''Z''))],
      i_assets = (''raster-data'', raster_asset) #
                 (if st then [(''qgis-style'', style_asset)] else []) @
                 [(''thumbnail'', thumbnail_asset), (''legend'', legend_asset)],
      i_self_href = Some p\<rparr>"
  defines "cat \<equiv>
     \<lparr>c_id = ''gobindpur-lulc-catalog'',
      c_description = ''STAC Catalog for Gobindpur LULC 2023-24 with metadata and thumbnail'',
      c_items = [it],
      c_self_href = Some (os_path_join output_dir ''catalog.json'')\<rparr>"
  defines "saved \<equiv>
     files(thumb_path \<mapsto> PNG (band1 src),
           legend_path \<mapsto> Text (json_dumps_indent2 lulc_classes),
           p \<mapsto> Item_document it,
           os_path_join output_dir ''catalog.json'' \<mapsto> Catalog_document cat)"
  assumes tif: "files tif_path = Some (GeoTIFF src)"
    and dates: "fst (set_date_info (tags src)) = (Some s, Some e)"
  shows "run lib files =
     Inr \<lparr>o_bbox = [left b, bottom b, right b, top' b],
          o_geometry = shapely_mapping (shapely_box (left b) (bottom b) (right b) (top' b)),
          o_start_dt = Some s, o_end_dt = Some e,
          o_catalog = cat,
          o_files = (case saved default_item_path of
                       None \<Rightarrow> saved
                     | Some c \<Rightarrow> (saved(default_item_path := None))(custom_item_path \<mapsto> c)),
          o_printed = snd (set_date_info (tags src)) @
                      (if st then [] else [Qml_not_found]) @ summary\<rparr>"
proof -
  obtain out2 where d: "set_date_info (tags src) = ((Some s, Some e), out2)"
    using dates by (cases "set_date_info (tags src)") auto
  let ?g = "shapely_mapping (shapely_box (left b) (bottom b) (right b) (top' b))"
  let ?bb = "[left b, bottom b, right b, top' b]"
  let ?it3 = "\<lparr>i_id = item_id, i_geometry = ?g, i_bbox = ?bb, i_datetime = Some s,
          i_properties = [(''start_datetime'', JStr (isoformat s @ ''Z'')),
                          (''end_datetime'', JStr (isoformat e @ ''Z''))],
          i_assets = [], i_self_href = None\<rparr>"
  let ?it5 = "?it3\<lparr>i_assets := (''raster-data'', raster_asset) #
                  (if st then [(''qgis-style'', style_asset)] else [])\<rparr>"
  let ?it6 = "?it5\<lparr>i_assets := (''raster-data'', raster_asset) #
                  (if st then [(''qgis-style'', style_asset)] else []) @
                  [(''thumbnail'', thumbnail_asset)]\<rparr>"
  let ?it7 = "?it6\<lparr>i_properties := [(''start_datetime'', JStr (isoformat s @ ''Z'')),
                          (''end_datetime'', JStr (isoformat e @ ''Z'')),
                          (''classification:classes'', lulc_classes)],
                  i_assets := (''raster-data'', raster_asset) #
                  (if st then [(''qgis-style'', style_asset)] else []) @
                  [(''thumbnail'', thumbnail_asset), (''legend'', legend_asset)]\<rparr>"
  have s1: "read_spatial_info files = Inr (?bb, ?g)"
    using spatial_info [of files src] tif by (simp add: b_def)
  have s2: "read_date_info files = Inr ((Some s, Some e), out2)"
    using date_info [of files src] tif d by simp
  have s3: "create_item ?g ?bb (Some s) (Some e) = Inr ?it3"
    by (rule created_item)
  have s5: "add_qgis_style files (add_raster_asset ?it3) =
              (?it5, if st then [] else [Qml_not_found])"
    using assets_after_step5 [of ?it3 files]
    by (simp add: st_def prod_eq_iff)
  have s6: "add_thumbnail files ?it5 = Inr (files(thumb_path \<mapsto> PNG (band1 src)), ?it6)"
    using thumbnail_added [of files src ?it5 raster_asset st style_asset] tif by simp
  have s7: "add_classification (files(thumb_path \<mapsto> PNG (band1 src))) ?it6 =
              (files(thumb_path \<mapsto> PNG (band1 src),
                     legend_path \<mapsto> Text (json_dumps_indent2 lulc_classes)), ?it7)"
    using classification_added [of ?it6 raster_asset st style_asset thumbnail_asset _ _
        "files(thumb_path \<mapsto> PNG (band1 src))"]
    by simp
  have it7: "to_dict (?it7\<lparr>i_self_href := Some p\<rparr>) = it"
    by (simp add: it_def to_dict_def datetime_to_str_def)
  have s8: "final_save lib (files(thumb_path \<mapsto> PNG (band1 src),
                     legend_path \<mapsto> Text (json_dumps_indent2 lulc_classes))) create_catalog ?it7 =
              Inr (saved, cat)"
    using saved_catalog [of ?it7 st lib "files(thumb_path \<mapsto> PNG (band1 src),
                     legend_path \<mapsto> Text (json_dumps_indent2 lulc_classes))"]
    unfolding Let_def p_def [symmetric] it7
    by (simp add: saved_def cat_def)
  show ?thesis
    unfolding run_def
    by (simp only: s1 s2 s3 s5 s6 s7 s8 renamed and_then_def sum.case prod.case Let_def)
       (simp add: d)
qed

lemma run_needs_raster:
  assumes "run lib files = Inr out"
  shows "\<exists>src. files tif_path = Some (GeoTIFF src)"
proof (rule ccontr)
  assume "\<nexists>src. files tif_path = Some (GeoTIFF src)"
  then have "rasterio_open files tif_path = Inl (RasterioIOError tif_path)"
    by (auto simp: rasterio_open_def split: option.split content.split)
  then have "run lib files = Inl (RasterioIOError tif_path)"
    by (simp add: run_def read_spatial_info_def and_then_def)
  with assms show False by simp
qed

lemma run_completed:
  assumes "run lib files = Inr out"
  obtains src s e where
    "files tif_path = Some (GeoTIFF src)" and
    "fst (set_date_info (tags src)) = (Some s, Some e)"
proof -
  obtain src where tif: "files tif_path = Some (GeoTIFF src)"
    using run_needs_raster [OF assms] by blast
  moreover obtain s e where "fst (set_date_info (tags src)) = (Some s, Some e)"
    using date_info_set by blast
  ultimately show thesis
    using that by blast
qed

lemma run_total:
  assumes "files tif_path = Some (GeoTIFF src)"
  shows "\<exists>out. run lib files = Inr out"
proof -
  obtain s e where "fst (set_date_info (tags src)) = (Some s, Some e)"
    using date_info_set by blast
  from run_success [of files src s e lib, OF assms this]
  show ?thesis by blast
qed

lemma run_item:
  assumes run: "run lib files = Inr out"
    and tif: "files tif_path = Some (GeoTIFF src)"
    and dates: "fst (set_date_info (tags src)) = (Some s, Some e)"
  shows "c_items (o_catalog out) =
     [\<lparr>i_id = item_id,
       i_geometry = shapely_mapping (shapely_box (left (bounds src)) (bottom (bounds src))
                      (right (bounds src)) (top' (bounds src))),
       i_bbox = [left (bounds src), bottom (bounds src), right (bounds src), top' (bounds src)],
       i_datetime = Some s,
       i_properties = [(''start_datetime'', JStr (isoformat s @ ''Z'')),
                       (''end_datetime'', JStr (isoformat e @ ''Z'')),
                       (''classification:classes'', lulc_classes),
                       (''datetime'', JStr (isoformat s @ ''Z''))],
       i_assets = (''raster-data'', raster_asset) #
                  (if os_path_exists files qgis_style_path then [(''qgis-style'', style_asset)] else []) @
                  [(''thumbnail'', thumbnail_asset), (''legend'', legend_asset)],
       i_self_href = Some (case layout lib of Item_id_json \<Rightarrow> custom_item_path
                           | Item_json \<Rightarrow> default_item_path)\<rparr>]"
  using run_success [of files src s e lib, OF tif dates] run by auto

lemma run_variables:
  assumes run: "run lib files = Inr out"
    and tif: "files tif_path = Some (GeoTIFF src)"
    and dates: "fst (set_date_info (tags src)) = (Some s, Some e)"
  shows "o_start_dt out = Some s" and "o_end_dt out = Some e"
    and "o_bbox out = [left (bounds src), bottom (bounds src), right (bounds src), top' (bounds src)]"
    and "o_printed out = snd (set_date_info (tags src)) @
           (if os_path_exists files qgis_style_path then [] else [Qml_not_found]) @ summary"
  using run_success [of files src s e lib, OF tif dates] run by auto

lemmas path_eqs =
  tif_path_def qgis_style_path_def thumb_path_eq legend_path_eq default_item_path_eq
  custom_item_path_eq catalog_path_eq

lemma run_files:
  assumes run: "run lib files = Inr out"
    and tif: "files tif_path = Some (GeoTIFF src)"
  shows "o_files out thumb_path = Some (PNG (band1 src))"
    and "o_files out legend_path = Some (Text (json_dumps_indent2 lulc_classes))"
    and "o_files out (os_path_join output_dir ''catalog.json'') =
           Some (Catalog_document (o_catalog out))"
    and "o_files out default_item_path = None"
    and "o_files out tif_path = files tif_path"
    and "o_files out qgis_style_path = files qgis_style_path"
    and "layout lib = Item_json \<or> files default_item_path = None \<Longrightarrow>
           o_files out custom_item_path = Some (Item_document (hd (c_items (o_catalog out))))"
    and "layout lib = Item_id_json \<Longrightarrow> files default_item_path = Some c \<Longrightarrow>
           o_files out custom_item_path = Some c"
proof -
  obtain s e where dates: "fst (set_date_info (tags src)) = (Some s, Some e)"
    using date_info_set by blast
  note out = run_success [of files src s e lib, OF tif dates, unfolded run, simplified]
  show "o_files out thumb_path = Some (PNG (band1 src))"
    by (cases "layout lib") (simp_all add: out path_eqs split: option.split)
  show "o_files out legend_path = Some (Text (json_dumps_indent2 lulc_classes))"
    by (cases "layout lib") (simp_all add: out path_eqs split: option.split)
  show "o_files out (os_path_join output_dir ''catalog.json'') =
          Some (Catalog_document (o_catalog out))"
    by (cases "layout lib") (simp_all add: out path_eqs split: option.split)
  show "o_files out default_item_path = None"
    by (cases "layout lib") (simp_all add: out path_eqs split: option.split)
  show "o_files out tif_path = files tif_path"
    by (cases "layout lib") (simp_all add: out path_eqs split: option.split)
  show "o_files out qgis_style_path = files qgis_style_path"
    by (cases "layout lib") (simp_all add: out path_eqs split: option.split)
  show "o_files out custom_item_path = Some (Item_document (hd (c_items (o_catalog out))))"
    if "layout lib = Item_json \<or> files default_item_path = None"
    using that
    by (cases "layout lib") (auto simp add: out path_eqs split: option.split)
  show "o_files out custom_item_path = Some c"
    if "layout lib = Item_id_json" and "files default_item_path = Some c"
    using that by (simp add: out path_eqs)
qed

subsection \<open>The item and its assets\<close>

lemma example_tif: "example_files tif_path = Some (GeoTIFF example_raster)"
  by (simp add: example_files_def path_eqs)

lemma example_style: "os_path_exists example_files qgis_style_path"
  by (simp add: example_files_def os_path_exists_def)

lemma bare_tif: "bare_files tif_path = Some (GeoTIFF (example_raster\<lparr>tags := Map.empty\<rparr>))"
  by (simp add: bare_files_def)

lemma bare_style: "\<not> os_path_exists bare_files qgis_style_path"
  by (simp add: bare_files_def os_path_exists_def path_eqs)




lemma shapely_box_ring:
  "shapely_box minx miny maxx maxy =
     [(maxx, miny), (maxx, maxy), (minx, maxy), (minx, miny)] @
     (if minx = maxx then [] else [(maxx, miny)])"
  by (auto simp: shapely_box_def polygon_ring_def)

lemma south_up_tif: "south_up_files tif_path = Some (GeoTIFF south_up_raster)"
  by (simp add: south_up_files_def)

text \<open>
  C3 as the specification states it, with the bbox being (minX, minY, maxX, maxY), does
  not hold of every raster. The script copies left, bottom, right and top and takes no
  minimum or maximum. On the raster with the bounds left 10, bottom 40, right 30 and
  top 20 the run completes, and the bbox of its one item is [10, 40, 30, 20]: the second
  entry is above the fourth, and the bbox is not the list of the least and the greatest
  coordinates.
\<close>

theorem bbox_not_min_max_counterexample:
  "(case run example_library south_up_files of
      Inl err \<Rightarrow> []
    | Inr out \<Rightarrow>
        map (\<lambda>it. (i_bbox it, i_bbox it ! 1 \<le> i_bbox it ! 3,
                    i_bbox it = [min 10 30, min 40 20, max 10 30, max 40 20]))
          (c_items (o_catalog out))) =
   [([10, 40, 30, 20], False, False)]"
proof -
  obtain out where run: "run example_library south_up_files = Inr out"
    using run_total [of south_up_files south_up_raster example_library] south_up_tif by blast
  obtain s e where dates: "fst (set_date_info (tags south_up_raster)) = (Some s, Some e)"
    using date_info_set by blast
  note it = run_item [OF run south_up_tif dates]
  show ?thesis
    by (simp add: run it south_up_raster_def example_raster_def)
qed

text \<open>
  C3, amended: in every run that completes, the bbox of the item is the list of the
  left, bottom, right and top bounds of the raster, in this order, which is
  (minX, minY, maxX, maxY) when left is at most right and bottom at most top. The
  geometry of the item is the polygon that shapely builds from the four numbers of that
  bbox: the corners (right, bottom), (right, top), (left, top) and (left, bottom),
  followed by (right, bottom) again unless left equals right.
\<close>

theorem bbox_from_bounds:
  assumes run: "run lib files = Inr out"
  shows "\<exists>src it. files tif_path = Some (GeoTIFF src) \<and> c_items (o_catalog out) = [it] \<and>
           i_bbox it =
             [left (bounds src), bottom (bounds src), right (bounds src), top' (bounds src)] \<and>
           (left (bounds src) \<le> right (bounds src) \<and> bottom (bounds src) \<le> top' (bounds src) \<longrightarrow>
              i_bbox it =
                [min (left (bounds src)) (right (bounds src)),
                 min (bottom (bounds src)) (top' (bounds src)),
                 max (left (bounds src)) (right (bounds src)),
                 max (bottom (bounds src)) (top' (bounds src))]) \<and>
           i_geometry it =
             shapely_mapping
               (shapely_box (i_bbox it ! 0) (i_bbox it ! 1) (i_bbox it ! 2) (i_bbox it ! 3)) \<and>
           i_geometry it =
             \<lparr>g_type = ''Polygon'',
              g_coordinates =
                [[(right (bounds src), bottom (bounds src)),
                  (right (bounds src), top' (bounds src)),
                  (left (bounds src), top' (bounds src)),
                  (left (bounds src), bottom (bounds src))] @
                 (if left (bounds src) = right (bounds src) then []
                  else [(right (bounds src), bottom (bounds src))])]\<rparr>"
proof -
  from run obtain src s e where
    tif: "files tif_path = Some (GeoTIFF src)" and
    dates: "fst (set_date_info (tags src)) = (Some s, Some e)"
    by (rule run_completed)
  note it = run_item [OF run tif dates]
  from tif show ?thesis
    by (simp add: it shapely_mapping_def shapely_box_ring min_def max_def)
qed

theorem bbox_from_bounds_witness:
  "\<exists>out it. run example_library example_files = Inr out \<and>
     c_items (o_catalog out) = [it] \<and> i_bbox it = [10, 20, 30, 40] \<and>
     i_geometry it =
       \<lparr>g_type = ''Polygon'',
        g_coordinates = [[(30, 20), (30, 40), (10, 40), (10, 20), (30, 20)]]\<rparr>"
proof -
  obtain out where run: "run example_library example_files = Inr out"
    using run_total [of example_files example_raster example_library] example_tif by blast
  from bbox_from_bounds [OF run] run show ?thesis
    by (auto simp: example_tif example_raster_def)
qed

text \<open>
  C4: in every run that completes, the item has the asset \<^verbatim>\<open>raster-data\<close>, and it has
  an asset \<^verbatim>\<open>qgis-style\<close> exactly when the style path exists; the warning is printed
  exactly when the path does not exist, and a run on a readable raster completes without
  the style file.
\<close>

theorem raster_always_style_iff_exists:
  "(run lib files = Inr out \<longrightarrow>
      (\<exists>it. c_items (o_catalog out) = [it] \<and>
         map_of (i_assets it) ''raster-data'' = Some raster_asset \<and>
         (map_of (i_assets it) ''qgis-style'' \<noteq> None) = os_path_exists files qgis_style_path \<and>
         (Qml_not_found \<in> set (o_printed out)) = (\<not> os_path_exists files qgis_style_path))) \<and>
   (files tif_path = Some (GeoTIFF src) \<and> \<not> os_path_exists files qgis_style_path \<longrightarrow>
      (\<exists>out'. run lib files = Inr out'))"
proof (intro conjI impI)
  assume run: "run lib files = Inr out"
  then obtain src s e where
    tif: "files tif_path = Some (GeoTIFF src)" and
    dates: "fst (set_date_info (tags src)) = (Some s, Some e)"
    by (rule run_completed)
  note it = run_item [OF run tif dates]
  have "Qml_not_found \<notin> set (snd (set_date_info tg))" for tg
    by (simp add: date_info_defs split: option.split sum.split)
  then have "(Qml_not_found \<in> set (o_printed out)) = (\<not> os_path_exists files qgis_style_path)"
    by (simp add: run_variables(4) [OF run tif dates] summary_def)
  then show "\<exists>it. c_items (o_catalog out) = [it] \<and>
         map_of (i_assets it) ''raster-data'' = Some raster_asset \<and>
         (map_of (i_assets it) ''qgis-style'' \<noteq> None) = os_path_exists files qgis_style_path \<and>
         (Qml_not_found \<in> set (o_printed out)) = (\<not> os_path_exists files qgis_style_path)"
    by (auto simp: it)
next
  assume "files tif_path = Some (GeoTIFF src) \<and> \<not> os_path_exists files qgis_style_path"
  then show "\<exists>out'. run lib files = Inr out'"
    using run_total [of files src lib] by simp
qed

theorem raster_always_style_iff_exists_witness:
  "(\<exists>out it. run example_library example_files = Inr out \<and> c_items (o_catalog out) = [it] \<and>
      map_of (i_assets it) ''raster-data'' = Some raster_asset \<and>
      map_of (i_assets it) ''qgis-style'' \<noteq> None \<and> Qml_not_found \<notin> set (o_printed out)) \<and>
   (\<exists>out it. run example_library bare_files = Inr out \<and> c_items (o_catalog out) = [it] \<and>
      map_of (i_assets it) ''raster-data'' = Some raster_asset \<and>
      map_of (i_assets it) ''qgis-style'' = None \<and> Qml_not_found \<in> set (o_printed out))"
proof -
  obtain out1 where run1: "run example_library example_files = Inr out1"
    using run_total [of example_files example_raster example_library] example_tif by blast
  obtain out2 where run2: "run example_library bare_files = Inr out2"
    using raster_always_style_iff_exists [of example_library bare_files _
        "example_raster\<lparr>tags := Map.empty\<rparr>"] bare_tif bare_style
    by blast
  from raster_always_style_iff_exists [of example_library example_files out1] run1 example_style
       raster_always_style_iff_exists [of example_library bare_files out2] run2 bare_style
  show ?thesis by auto
qed

subsection \<open>The files written\<close>

lemma legend_text_parses: "json_loads (json_dumps_indent2 lulc_classes) = Some lulc_classes"
  by (simp add: json_loads_def json_dumps_indent2_def lulc_classes_def encode_string_def
      escape_char_def str_int_def newline_indent_def skip_ws_def is_ws_def scan_number_def
      is_float_tail_def decimal_def digit_val_def is_digit_def dict_of_def cons_to_def Let_def
      eval_nat_numeral)

lemma item_dir_of_path:
  "os_path_dirname custom_item_path = item_dir" "os_path_dirname default_item_path = item_dir"
  by (simp_all add: custom_item_path_eq default_item_path_eq item_dir_eq os_path_dirname_def
      rstrip_slash_def)

text \<open>
  C5: in every run that completes, the item has the assets \<^verbatim>\<open>thumbnail\<close> and
  \<^verbatim>\<open>legend\<close>; the directory of the item is \<^verbatim>\<open><output_dir>/<item_id>\<close>; the href of
  each of the two assets, joined to this directory and normalised, is the path of the
  thumbnail or of the legend in the data directory, and after the run the file system
  has a file there: the image rendered from band 1, and the text of the legend.
\<close>

theorem thumbnail_and_legend_exist:
  assumes run: "run lib files = Inr out"
  shows "\<exists>it p th lg arr.
           c_items (o_catalog out) = [it] \<and>
           i_self_href it = Some p \<and> os_path_dirname p = os_path_join output_dir item_id \<and>
           map_of (i_assets it) ''thumbnail'' = Some th \<and>
           map_of (i_assets it) ''legend'' = Some lg \<and>
           os_path_normpath (os_path_join (os_path_dirname p) (href th)) =
             os_path_join data_dir ''thumbnail.png'' \<and>
           os_path_normpath (os_path_join (os_path_dirname p) (href lg)) =
             os_path_join data_dir ''legend.json'' \<and>
           os_path_exists (o_files out) (os_path_normpath (os_path_join (os_path_dirname p) (href th))) \<and>
           os_path_exists (o_files out) (os_path_normpath (os_path_join (os_path_dirname p) (href lg))) \<and>
           o_files out (os_path_join data_dir ''thumbnail.png'') = Some (PNG arr) \<and>
           o_files out (os_path_join data_dir ''legend.json'') =
             Some (Text (json_dumps_indent2 lulc_classes))"
proof -
  from run obtain src s e where
    tif: "files tif_path = Some (GeoTIFF src)" and
    dates: "fst (set_date_info (tags src)) = (Some s, Some e)"
    by (rule run_completed)
  note it = run_item [OF run tif dates]
  note fs = run_files(1,2) [OF run tif]
  have dir: "os_path_dirname (case layout lib of Item_id_json \<Rightarrow> custom_item_path
               | Item_json \<Rightarrow> default_item_path) = item_dir"
    by (cases "layout lib") (simp_all add: item_dir_of_path)
  show ?thesis
    using fs resolve_thumbnail resolve_legend
    by (auto simp: it dir os_path_exists_def item_dir_def [symmetric] thumb_path_def [symmetric]
        legend_path_def [symmetric])
qed

theorem thumbnail_and_legend_exist_witness:
  "\<exists>out it th lg.
     run example_library example_files = Inr out \<and> c_items (o_catalog out) = [it] \<and>
     map_of (i_assets it) ''thumbnail'' = Some th \<and>
     map_of (i_assets it) ''legend'' = Some lg \<and>
     os_path_exists (o_files out) (os_path_normpath (os_path_join item_dir (href th))) \<and>
     os_path_exists (o_files out) (os_path_normpath (os_path_join item_dir (href lg)))"
proof -
  obtain out where run: "run example_library example_files = Inr out"
    using run_total [of example_files example_raster example_library] example_tif by blast
  from thumbnail_and_legend_exist [OF run] run show ?thesis
    by (auto simp: item_dir_def)
qed

text \<open>
  C6: the text \<^verbatim>\<open>json.dump\<close> writes for the class list is parsed back by \<^verbatim>\<open>json.load\<close>
  to the class list, which is the five entries (1, Water), (2, Urban), (3, Forest),
  (4, Cropland), (5, Barren) in this order; in every run that completes,
  \<^verbatim>\<open>legend.json\<close> holds that text, and the item has the same list as its property
  \<^verbatim>\<open>classification:classes\<close>.
\<close>

theorem legend_round_trip:
  "json_loads (json_dumps_indent2 lulc_classes) = Some lulc_classes \<and>
   lulc_classes =
     JList (map (\<lambda>(v, n). JDict [(''value'', JInt v), (''name'', JStr n)])
              [(1, ''Water''), (2, ''Urban''), (3, ''Forest''), (4, ''Cropland''), (5, ''Barren'')]) \<and>
   (run lib files = Inr out \<longrightarrow>
      (\<exists>text entries it.
         o_files out legend_path = Some (Text text) \<and>
         json_loads text = Some (JList entries) \<and> length entries = 5 \<and>
         JList entries = lulc_classes \<and>
         c_items (o_catalog out) = [it] \<and>
         map_of (i_properties it) ''classification:classes'' = Some lulc_classes))"
proof (intro conjI impI)
  show "json_loads (json_dumps_indent2 lulc_classes) = Some lulc_classes"
    by (rule legend_text_parses)
  show "lulc_classes =
     JList (map (\<lambda>(v, n). JDict [(''value'', JInt v), (''name'', JStr n)])
              [(1, ''Water''), (2, ''Urban''), (3, ''Forest''), (4, ''Cropland''), (5, ''Barren'')])"
    by (simp add: lulc_classes_def)
  assume run: "run lib files = Inr out"
  then obtain src s e where
    tif: "files tif_path = Some (GeoTIFF src)" and
    dates: "fst (set_date_info (tags src)) = (Some s, Some e)"
    by (rule run_completed)
  note it = run_item [OF run tif dates]
  have "\<exists>entries. lulc_classes = JList entries \<and> length entries = 5"
    by (simp add: lulc_classes_def)
  then obtain entries where "lulc_classes = JList entries" and "length entries = 5"
    by blast
  with run_files(2) [OF run tif] legend_text_parses
  show "\<exists>text entries it.
         o_files out legend_path = Some (Text text) \<and>
         json_loads text = Some (JList entries) \<and> length entries = 5 \<and>
         JList entries = lulc_classes \<and>
         c_items (o_catalog out) = [it] \<and>
         map_of (i_properties it) ''classification:classes'' = Some lulc_classes"
    by (auto simp: it)
qed

theorem legend_round_trip_witness:
  "\<exists>out text it.
     run example_library example_files = Inr out \<and>
     o_files out legend_path = Some (Text text) \<and>
     json_loads text = Some lulc_classes \<and>
     c_items (o_catalog out) = [it] \<and>
     map_of (i_properties it) ''classification:classes'' = Some lulc_classes"
proof -
  obtain out where run: "run example_library example_files = Inr out"
    using run_total [of example_files example_raster example_library] example_tif by blast
  from legend_round_trip [of example_library example_files out] run show ?thesis
    by auto
qed

text \<open>
  C7: in every run that completes, the properties \<^verbatim>\<open>start_datetime\<close> and
  \<^verbatim>\<open>end_datetime\<close> of the item are \<^verbatim>\<open>isoformat()\<close> of \<open>start_dt\<close> and of \<open>end_dt\<close>, each
  followed by the letter Z, and the datetime of the item is \<open>start_dt\<close>.
\<close>

theorem datetimes_iso_with_Z:
  assumes run: "run lib files = Inr out"
  shows "\<exists>s e it.
           o_start_dt out = Some s \<and> o_end_dt out = Some e \<and>
           c_items (o_catalog out) = [it] \<and>
           map_of (i_properties it) ''start_datetime'' = Some (JStr (isoformat s @ ''Z'')) \<and>
           map_of (i_properties it) ''end_datetime'' = Some (JStr (isoformat e @ ''Z'')) \<and>
           i_datetime it = Some s"
proof -
  from run obtain src s e where
    tif: "files tif_path = Some (GeoTIFF src)" and
    dates: "fst (set_date_info (tags src)) = (Some s, Some e)"
    by (rule run_completed)
  show ?thesis
    by (simp add: run_item [OF run tif dates] run_variables(1,2) [OF run tif dates])
qed

theorem datetimes_iso_with_Z_witness:
  "\<exists>out s e it.
     run example_library example_files = Inr out \<and>
     o_start_dt out = Some s \<and> o_end_dt out = Some e \<and>
     c_items (o_catalog out) = [it] \<and>
     map_of (i_properties it) ''start_datetime'' = Some (JStr (isoformat s @ ''Z'')) \<and>
     map_of (i_properties it) ''end_datetime'' = Some (JStr (isoformat e @ ''Z'')) \<and>
     i_datetime it = Some s"
proof -
  obtain out where run: "run example_library example_files = Inr out"
    using run_total [of example_files example_raster example_library] example_tif by blast
  from datetimes_iso_with_Z [OF run] run show ?thesis
    by blast
qed

lemma item_paths:
  "default_item_path = output_dir @ ''/'' @ item_id @ ''/item.json''"
  "custom_item_path = output_dir @ ''/'' @ item_id @ ''/'' @ item_id @ ''.json''"
  by (simp_all add: default_item_path_eq custom_item_path_eq output_dir_def item_id_def)

text \<open>
  C8: when \<^verbatim>\<open><output_dir>/<item_id>/item.json\<close> exists after the catalog was saved, it
  is renamed to \<^verbatim>\<open><output_dir>/<item_id>/<item_id>.json\<close>; when it does not exist, the
  files stay as they are and nothing is raised. A run on a readable raster completes in
  both cases: no \<^verbatim>\<open>item.json\<close> is left, and the item document is at the new name when
  pystac saved it as \<^verbatim>\<open>item.json\<close>, and also when pystac saved it under the new name
  and there was no \<^verbatim>\<open>item.json\<close> before.
\<close>

theorem rename_if_present:
  "(fs1 default_item_path = Some c \<longrightarrow>
      rename_item_file fs1 = Inr ((fs1(default_item_path := None))(custom_item_path \<mapsto> c))) \<and>
   (fs1 default_item_path = None \<longrightarrow> rename_item_file fs1 = Inr fs1) \<and>
   default_item_path = output_dir @ ''/'' @ item_id @ ''/item.json'' \<and>
   custom_item_path = output_dir @ ''/'' @ item_id @ ''/'' @ item_id @ ''.json'' \<and>
   (files tif_path = Some (GeoTIFF src) \<longrightarrow>
      (\<exists>out it. run lib files = Inr out \<and> c_items (o_catalog out) = [it] \<and>
         o_files out default_item_path = None \<and>
         (layout lib = Item_json \<or> files default_item_path = None \<longrightarrow>
            o_files out custom_item_path = Some (Item_document it))))"
proof (intro conjI impI)
  show "rename_item_file fs1 = Inr ((fs1(default_item_path := None))(custom_item_path \<mapsto> c))"
    if "fs1 default_item_path = Some c"
    using that by (simp add: renamed)
  show "rename_item_file fs1 = Inr fs1" if "fs1 default_item_path = None"
    using that by (simp add: renamed)
  show "default_item_path = output_dir @ ''/'' @ item_id @ ''/item.json''"
    and "custom_item_path = output_dir @ ''/'' @ item_id @ ''/'' @ item_id @ ''.json''"
    by (rule item_paths)+
  assume tif: "files tif_path = Some (GeoTIFF src)"
  obtain out where run: "run lib files = Inr out"
    using run_total [of files src lib] tif by blast
  obtain s e where dates: "fst (set_date_info (tags src)) = (Some s, Some e)"
    using date_info_set by blast
  note it = run_item [OF run tif dates]
  from run_files(4,7) [OF run tif] run
  show "\<exists>out it. run lib files = Inr out \<and> c_items (o_catalog out) = [it] \<and>
         o_files out default_item_path = None \<and>
         (layout lib = Item_json \<or> files default_item_path = None \<longrightarrow>
            o_files out custom_item_path = Some (Item_document it))"
    by (auto simp: it)
qed

theorem rename_if_present_witness:
  "rename_item_file [default_item_path \<mapsto> Text ''{}''] = Inr [custom_item_path \<mapsto> Text ''{}''] \<and>
   rename_item_file Map.empty = Inr Map.empty \<and>
   (\<exists>out it. run example_library example_files = Inr out \<and> c_items (o_catalog out) = [it] \<and>
      o_files out default_item_path = None \<and>
      o_files out custom_item_path = Some (Item_document it)) \<and>
   (\<exists>out it. run (example_library\<lparr>layout := Item_json\<rparr>) example_files = Inr out \<and>
      c_items (o_catalog out) = [it] \<and>
      o_files out default_item_path = None \<and>
      o_files out custom_item_path = Some (Item_document it))"
proof -
  have "example_files default_item_path = None"
    by (simp add: example_files_def path_eqs)
  moreover have "[default_item_path \<mapsto> Text ''{}''](default_item_path := None) = Map.empty"
    by simp
  moreover have "layout (example_library\<lparr>layout := Item_json\<rparr>) = Item_json"
    by simp
  ultimately show ?thesis
    using rename_if_present [of "[default_item_path \<mapsto> Text ''{}'']" "Text ''{}''"
            example_files example_raster example_library]
          rename_if_present [of Map.empty _ example_files example_raster
            "example_library\<lparr>layout := Item_json\<rparr>"]
          example_tif
    by simp
qed

end
